theory Spec2Isabelle
  imports Main "HOL-Library.Word"
begin

section \<open>JavaScript values\<close>

text \<open>
  Bytes of a Node \<open>Buffer\<close> are 8-bit words; JavaScript strings are \<open>string\<close>.
  A value obtained from \<open>JSON.parse\<close> is a \<open>json\<close>; \<open>undefined\<close> is \<open>None\<close> of
  \<open>json option\<close>. Numbers are integers: the code only tests them for truthiness and
  only produces integers. A thrown exception is \<open>Inl\<close> of its message.
\<close>

type_synonym buffer = "8 word list"

datatype json =
    JNull
  | JBool bool
  | JNum int
  | JStr string
  | JArr "json list"
  | JObj "(string \<times> json) list"

type_synonym jsval = "json option"

text \<open>JavaScript truthiness (\<open>!x\<close>, \<open>x || y\<close>, \<open>if (x)\<close>).\<close>

fun truthy :: "jsval \<Rightarrow> bool" where
  "truthy None = False"
| "truthy (Some JNull) = False"
| "truthy (Some (JBool b)) = b"
| "truthy (Some (JNum n)) = (n \<noteq> 0)"
| "truthy (Some (JStr s)) = (s \<noteq> [])"
| "truthy (Some (JArr xs)) = True"
| "truthy (Some (JObj kvs)) = True"

text \<open>
  Property read \<open>v.name\<close>: a \<open>TypeError\<close> on \<open>null\<close> and \<open>undefined\<close>, the member of
  an object, \<open>undefined\<close> for every other value (none of the names the code reads is a
  built-in property of a string, number, boolean or array).
\<close>

definition TypeError_read :: "string \<Rightarrow> string" where
  "TypeError_read name = ''Cannot read properties of null or undefined (reading '' @ name @ '')''"

fun js_get :: "jsval \<Rightarrow> string \<Rightarrow> string + jsval" where
  "js_get None name = Inl (TypeError_read name)"
| "js_get (Some JNull) name = Inl (TypeError_read name)"
| "js_get (Some (JObj kvs)) name = Inr (map_of kvs name)"
| "js_get (Some v) name = Inr None"

text \<open>Optional chaining \<open>v?.name\<close>: \<open>undefined\<close> instead of the \<open>TypeError\<close>.\<close>

fun js_get_opt :: "jsval \<Rightarrow> string \<Rightarrow> jsval" where
  "js_get_opt (Some (JObj kvs)) name = map_of kvs name"
| "js_get_opt v name = None"

text \<open>Sequencing of a computation that may throw.\<close>

fun try_bind :: "string + 'a \<Rightarrow> ('a \<Rightarrow> string + 'b) \<Rightarrow> string + 'b" where
  "try_bind (Inl e) f = Inl e"
| "try_bind (Inr x) f = f x"

section \<open>The Node runtime the code calls\<close>

text \<open>
  The functions of \<open>node:crypto\<close>, \<open>Buffer\<close> and \<open>JSON\<close> are not code of the repository;
  they are the fields of a record that every modelled function takes as its first
  argument. \<open>b64decode\<close>, \<open>hexdecode\<close> and \<open>utf8encode\<close> are \<open>Buffer.from(s, enc)\<close> on a
  string \<open>s\<close>, which never throws; \<open>Buffer_from_other\<close> is \<open>Buffer.from\<close> on a value that
  is not a string. \<open>cryptoSign data privateKey\<close> and \<open>cryptoVerify data signature publicKey\<close>
  are the one-shot \<open>sign(null, data, key)\<close> and \<open>verify(null, data, key, signature)\<close> on raw
  Ed25519 keys (the DER wrapping is part of them). \<open>createPrivateKey\<close> and
  \<open>createPublicKey\<close> import a raw Ed25519 key in its DER wrapping as a key object, and
  \<open>Sign_sign algorithm data key\<close> and \<open>Verify_verify algorithm data key signature\<close> are
  \<open>update(data)\<close> followed by \<open>sign(key)\<close> or \<open>verify(key, signature)\<close> on the object that
  \<open>createSign\<close> or \<open>createVerify\<close> made for an algorithm. \<open>chacha20_seal key nonce plain\<close>
  returns the encrypted bytes and the 16-byte tag, \<open>chacha20_open key nonce data tag\<close>
  throws on a tag mismatch, \<open>x25519 privateKey publicKey\<close> is \<open>diffieHellman\<close> on raw keys,
  and \<open>js_String\<close> is the string conversion of a template literal.
\<close>

record node =
  randomBytes :: "nat \<Rightarrow> buffer"
  sha256 :: "buffer \<Rightarrow> buffer"
  cryptoSign :: "buffer \<Rightarrow> buffer \<Rightarrow> string + buffer"
  cryptoVerify :: "buffer \<Rightarrow> buffer \<Rightarrow> buffer \<Rightarrow> string + bool"
  createPrivateKey :: "buffer \<Rightarrow> string + buffer"
  createPublicKey :: "buffer \<Rightarrow> string + buffer"
  Sign_sign :: "string \<Rightarrow> buffer \<Rightarrow> buffer \<Rightarrow> string + buffer"
  Verify_verify :: "string \<Rightarrow> buffer \<Rightarrow> buffer \<Rightarrow> buffer \<Rightarrow> string + bool"
  chacha20_seal :: "buffer \<Rightarrow> buffer \<Rightarrow> buffer \<Rightarrow> string + (buffer \<times> buffer)"
  chacha20_open :: "buffer \<Rightarrow> buffer \<Rightarrow> buffer \<Rightarrow> buffer \<Rightarrow> string + buffer"
  x25519 :: "buffer \<Rightarrow> buffer \<Rightarrow> string + buffer"
  toBase64 :: "buffer \<Rightarrow> string"
  b64decode :: "string \<Rightarrow> buffer"
  toHex :: "buffer \<Rightarrow> string"
  hexdecode :: "string \<Rightarrow> buffer"
  utf8encode :: "string \<Rightarrow> buffer"
  toUtf8 :: "buffer \<Rightarrow> string"
  Buffer_from_other :: "jsval \<Rightarrow> string + buffer"
  JSON_parse :: "string \<Rightarrow> string + json"
  JSON_stringify :: "json \<Rightarrow> string"
  js_String :: "jsval \<Rightarrow> string"
  schnorr_getPublicKey :: "buffer \<Rightarrow> string + buffer"
  schnorr_sign :: "buffer \<Rightarrow> buffer \<Rightarrow> string + buffer"

datatype encoding = Base64 | Hex

fun Buffer_from :: "node \<Rightarrow> jsval \<Rightarrow> encoding \<Rightarrow> string + buffer" where
  "Buffer_from L (Some (JStr s)) Base64 = Inr (b64decode L s)"
| "Buffer_from L (Some (JStr s)) Hex = Inr (hexdecode L s)"
| "Buffer_from L v enc = Buffer_from_other L v"

text \<open>
  \<open>buf.subarray(start, end)\<close>: a negative index counts from the end, and both are
  clamped to the buffer.
\<close>

definition clamp_index :: "nat \<Rightarrow> int \<Rightarrow> nat" where
  "clamp_index len i = (if i < 0 then nat (max (int len + i) 0) else min (nat i) len)"

definition subarray :: "buffer \<Rightarrow> int \<Rightarrow> int \<Rightarrow> buffer" where
  "subarray b start end =
     (let s = clamp_index (length b) start; e = clamp_index (length b) end
      in take (e - s) (drop s b))"

text \<open>\<open>Buffer.compare\<close>: bytewise, a proper prefix first; the result is -1, 0 or 1.\<close>

fun Buffer_compare :: "buffer \<Rightarrow> buffer \<Rightarrow> int" where
  "Buffer_compare [] [] = 0"
| "Buffer_compare [] (y # ys) = -1"
| "Buffer_compare (x # xs) [] = 1"
| "Buffer_compare (x # xs) (y # ys) =
     (if x < y then -1 else if y < x then 1 else Buffer_compare xs ys)"

text \<open>\<open>[a, b].sort(Buffer.compare)\<close>: the two are swapped when \<open>compare(a, b) > 0\<close>.\<close>

definition sort2 :: "buffer \<Rightarrow> buffer \<Rightarrow> buffer \<times> buffer" where
  "sort2 a b = (if Buffer_compare a b > 0 then (b, a) else (a, b))"

section \<open>Keypairs and the encrypted envelope\<close>

record Keypair =
  publicKey :: buffer
  privateKey :: buffer

record EncryptedMessage =
  ciphertext :: string
  nonce :: string
  senderPubKey :: string
  signature :: string
  ephemeralPubKey :: string

text \<open>The envelope as the JavaScript object that \<open>decryptMessage\<close> reads.\<close>

definition EncryptedMessage_object :: "EncryptedMessage \<Rightarrow> json" where
  "EncryptedMessage_object m = JObj
     [(''ciphertext'', JStr (ciphertext m)),
      (''nonce'', JStr (nonce m)),
      (''senderPubKey'', JStr (senderPubKey m)),
      (''signature'', JStr (signature m)),
      (''ephemeralPubKey'', JStr (ephemeralPubKey m))]"

datatype decrypt_result = Success string | Failure string

text \<open>The domain-separation constant \<open>Buffer.from("tete-a-tete-v1")\<close>.\<close>

definition key_context :: "node \<Rightarrow> buffer" where
  "key_context L = utf8encode L ''tete-a-tete-v1''"

text \<open>
  \<open>createHash("sha256").update(k0).update(k1).update(context).digest()\<close> over the
  two public keys sorted by \<open>Buffer.compare\<close>.
\<close>

definition keyMaterial :: "node \<Rightarrow> buffer \<Rightarrow> buffer \<Rightarrow> buffer" where
  "keyMaterial L a b =
     (let sortedKeys = sort2 a b
      in sha256 L (fst sortedKeys @ snd sortedKeys @ key_context L))"

text \<open>
  \<open>encryptMessage\<close> of the v1 module (the version with the key derived from the two
  sorted public keys). The ephemeral X25519 keypair it generates first is never used
  and is left out.
\<close>

definition encryptMessage :: "node \<Rightarrow> string \<Rightarrow> Keypair \<Rightarrow> buffer \<Rightarrow> string + EncryptedMessage" where
  "encryptMessage L plaintext senderKeypair recipientPublicKey =
     (let nonce = randomBytes L 12;
          key = keyMaterial L (publicKey senderKeypair) recipientPublicKey;
          plaintextBuf = utf8encode L plaintext
      in try_bind (chacha20_seal L key nonce plaintextBuf) (\<lambda>(encrypted, authTag).
         let ciphertext = encrypted @ authTag;
             toSign = ciphertext @ nonce
         in try_bind (cryptoSign L toSign (privateKey senderKeypair)) (\<lambda>signature.
            Inr \<lparr> ciphertext = toBase64 L ciphertext,
                  nonce = toBase64 L nonce,
                  senderPubKey = toHex L (publicKey senderKeypair),
                  signature = toBase64 L signature,
                  ephemeralPubKey = [] \<rparr>)))"

text \<open>
  \<open>decryptMessage\<close> of the v1 module. The body of its \<open>try\<close> block is
  \<open>decryptMessage_try\<close>; the \<open>catch\<close> turns an exception into a failure carrying the
  exception's message.
\<close>

definition decryptMessage_try :: "node \<Rightarrow> json \<Rightarrow> Keypair \<Rightarrow> string + decrypt_result" where
  "decryptMessage_try L encrypted recipientKeypair =
     try_bind (js_get (Some encrypted) ''ciphertext'') (\<lambda>f1.
     try_bind (Buffer_from L f1 Base64) (\<lambda>ciphertext.
     try_bind (js_get (Some encrypted) ''nonce'') (\<lambda>f2.
     try_bind (Buffer_from L f2 Base64) (\<lambda>nonce.
     try_bind (js_get (Some encrypted) ''senderPubKey'') (\<lambda>f3.
     try_bind (Buffer_from L f3 Hex) (\<lambda>senderPubKey.
     try_bind (js_get (Some encrypted) ''signature'') (\<lambda>f4.
     try_bind (Buffer_from L f4 Base64) (\<lambda>signature.
     let toVerify = ciphertext @ nonce
     in try_bind (cryptoVerify L toVerify signature senderPubKey) (\<lambda>ok.
        if \<not> ok then Inr (Failure ''Invalid signature'')
        else
          let key = keyMaterial L senderPubKey (publicKey recipientKeypair);
              authTag = subarray ciphertext (int (length ciphertext) - 16) (int (length ciphertext));
              encryptedData = subarray ciphertext 0 (int (length ciphertext) - 16)
          in try_bind (chacha20_open L key nonce encryptedData authTag) (\<lambda>decrypted.
             Inr (Success (toUtf8 L decrypted))))))))))))"

definition decryptMessage :: "node \<Rightarrow> json \<Rightarrow> Keypair \<Rightarrow> decrypt_result" where
  "decryptMessage L encrypted recipientKeypair =
     (case decryptMessage_try L encrypted recipientKeypair of
        Inl message \<Rightarrow> Failure message
      | Inr r \<Rightarrow> r)"

section \<open>The envelope codec of \<open>src/relay/encryption.ts\<close>\<close>

text \<open>
  The second version of the module in the repository (``NaCl-style box''). Its
  \<open>ed25519PrivateToX25519\<close> and \<open>ed25519PublicToX25519\<close> re-wrap the raw bytes of the Ed25519
  key (the \<open>d\<close> and \<open>x\<close> members of its JWK) as an X25519 key, so \<open>deriveSharedSecret\<close> is
  \<open>diffieHellman\<close> on the same raw bytes.
\<close>

record EncryptedMessage_box =
  ciphertext_box :: string
  nonce_box :: string
  senderPubKey_box :: string
  signature_box :: string

definition deriveSharedSecret :: "node \<Rightarrow> buffer \<Rightarrow> buffer \<Rightarrow> string + buffer" where
  "deriveSharedSecret L ourPrivate theirPublic = x25519 L ourPrivate theirPublic"

text \<open>
  \<open>createSign(algorithm)\<close> and \<open>createVerify(algorithm)\<close> validate first that the algorithm
  is a string: on \<open>null\<close> they throw \<open>TypeError [ERR_INVALID_ARG_TYPE]\<close> and make no object.
\<close>

definition ERR_INVALID_ARG_TYPE :: "string \<Rightarrow> string" where
  "ERR_INVALID_ARG_TYPE name =
     ''The '' @ [CHR 0x22] @ name @ [CHR 0x22] @ '' argument must be of type string. Received null''"

definition createSign :: "string option \<Rightarrow> string + string" where
  "createSign algorithm =
     (case algorithm of None \<Rightarrow> Inl (ERR_INVALID_ARG_TYPE ''algorithm'') | Some a \<Rightarrow> Inr a)"

definition createVerify :: "string option \<Rightarrow> string + string" where
  "createVerify algorithm =
     (case algorithm of None \<Rightarrow> Inl (ERR_INVALID_ARG_TYPE ''algorithm'') | Some a \<Rightarrow> Inr a)"

text \<open>
  The \<open>sign\<close> and \<open>verify\<close> of this module: the key is imported, then the signer or
  verifier is made with \<open>createSign(null as any)\<close> or \<open>createVerify(null as any)\<close>.
\<close>

definition sign_box :: "node \<Rightarrow> buffer \<Rightarrow> buffer \<Rightarrow> string + buffer" where
  "sign_box L data privateKey' =
     try_bind (createPrivateKey L privateKey') (\<lambda>key.
     try_bind (createSign None) (\<lambda>signer.
     Sign_sign L signer data key))"

definition verify_box :: "node \<Rightarrow> buffer \<Rightarrow> buffer \<Rightarrow> buffer \<Rightarrow> string + bool" where
  "verify_box L data signature' publicKey' =
     try_bind (createPublicKey L publicKey') (\<lambda>key.
     try_bind (createVerify None) (\<lambda>verifier.
     Verify_verify L verifier data key signature'))"

text \<open>
  \<open>encryptMessage\<close> of this module up to its call of \<open>sign\<close>: the locals \<open>nonce\<close> and
  \<open>ciphertext\<close> at that point. The nonce is \<open>randomBytes(24)\<close>, and the cipher is given
  \<open>nonce.subarray(0, 12)\<close>.
\<close>

definition encryptMessage_box_locals ::
  "node \<Rightarrow> string \<Rightarrow> Keypair \<Rightarrow> buffer \<Rightarrow> string + (buffer \<times> buffer)" where
  "encryptMessage_box_locals L plaintext senderKeypair recipientPublicKey =
     try_bind (deriveSharedSecret L (privateKey senderKeypair) recipientPublicKey) (\<lambda>sharedSecret.
     let nonce = randomBytes L 24;
         plaintextBuf = utf8encode L plaintext
     in try_bind (chacha20_seal L (subarray sharedSecret 0 32) (subarray nonce 0 12) plaintextBuf)
          (\<lambda>(encrypted, authTag).
         let ciphertext = encrypted @ authTag
         in Inr (nonce, ciphertext)))"

text \<open>The whole of it: the ciphertext is signed, and the envelope is built.\<close>

definition encryptMessage_box ::
  "node \<Rightarrow> string \<Rightarrow> Keypair \<Rightarrow> buffer \<Rightarrow> string + EncryptedMessage_box" where
  "encryptMessage_box L plaintext senderKeypair recipientPublicKey =
     try_bind (encryptMessage_box_locals L plaintext senderKeypair recipientPublicKey)
       (\<lambda>(nonce, ciphertext).
     try_bind (sign_box L ciphertext (privateKey senderKeypair)) (\<lambda>signature.
        Inr \<lparr> ciphertext_box = toBase64 L ciphertext,
              nonce_box = toBase64 L nonce,
              senderPubKey_box = toHex L (publicKey senderKeypair),
              signature_box = toBase64 L signature \<rparr>))"

definition decryptMessage_box_try :: "node \<Rightarrow> json \<Rightarrow> Keypair \<Rightarrow> string + decrypt_result" where
  "decryptMessage_box_try L encrypted recipientKeypair =
     try_bind (js_get (Some encrypted) ''ciphertext'') (\<lambda>f1.
     try_bind (Buffer_from L f1 Base64) (\<lambda>ciphertext.
     try_bind (js_get (Some encrypted) ''nonce'') (\<lambda>f2.
     try_bind (Buffer_from L f2 Base64) (\<lambda>nonce.
     try_bind (js_get (Some encrypted) ''senderPubKey'') (\<lambda>f3.
     try_bind (Buffer_from L f3 Hex) (\<lambda>senderPubKey.
     try_bind (js_get (Some encrypted) ''signature'') (\<lambda>f4.
     try_bind (Buffer_from L f4 Base64) (\<lambda>signature.
     try_bind (verify_box L ciphertext signature senderPubKey) (\<lambda>ok.
        if \<not> ok then Inr (Failure ''Invalid signature'')
        else
          try_bind (deriveSharedSecret L (privateKey recipientKeypair) senderPubKey) (\<lambda>sharedSecret.
          let authTag = subarray ciphertext (int (length ciphertext) - 16) (int (length ciphertext));
              encryptedData = subarray ciphertext 0 (int (length ciphertext) - 16)
          in try_bind (chacha20_open L (subarray sharedSecret 0 32) (subarray nonce 0 12)
                         encryptedData authTag) (\<lambda>decrypted.
             Inr (Success (toUtf8 L decrypted)))))))))))))"

definition decryptMessage_box :: "node \<Rightarrow> json \<Rightarrow> Keypair \<Rightarrow> decrypt_result" where
  "decryptMessage_box L encrypted recipientKeypair =
     (case decryptMessage_box_try L encrypted recipientKeypair of
        Inl message \<Rightarrow> Failure message
      | Inr r \<Rightarrow> r)"

section \<open>Wire events\<close>

text \<open>
  The fields of \<open>NostrEvent\<close> carry the prefix \<open>ev_\<close> (\<open>id\<close> is a constant of HOL). A tag
  is a list of JSON values: the transport copies a field of the parsed envelope into it.
\<close>

record NostrEvent =
  ev_id :: string
  ev_pubkey :: string
  ev_created_at :: int
  ev_kind :: int
  ev_tags :: "json list list"
  ev_content :: string
  ev_sig :: string

definition NostrEvent_object :: "NostrEvent \<Rightarrow> json" where
  "NostrEvent_object e = JObj
     [(''id'', JStr (ev_id e)),
      (''sig'', JStr (ev_sig e)),
      (''pubkey'', JStr (ev_pubkey e)),
      (''created_at'', JNum (ev_created_at e)),
      (''kind'', JNum (ev_kind e)),
      (''tags'', JArr (map JArr (ev_tags e))),
      (''content'', JStr (ev_content e))]"

text \<open>\<open>deriveSecp256k1Key\<close>: SHA-256 of the Ed25519 private key and a fixed label.\<close>

definition deriveSecp256k1Key :: "node \<Rightarrow> buffer \<Rightarrow> buffer" where
  "deriveSecp256k1Key L ed25519Private = sha256 L (ed25519Private @ utf8encode L ''ttt-nostr-key'')"

text \<open>
  \<open>createNostrEvent\<close>; \<open>now\<close> is the value of \<open>Date.now()\<close>. The \<open>pubkey\<close> parameter of the
  source is ignored there too: the event carries the derived secp256k1 key.
\<close>

definition createNostrEvent ::
  "node \<Rightarrow> int \<Rightarrow> int \<Rightarrow> string \<Rightarrow> json list list \<Rightarrow> buffer \<Rightarrow> string + NostrEvent" where
  "createNostrEvent L now kind0 content0 tags0 privateKey0 =
     (let secpPriv = deriveSecp256k1Key L privateKey0
      in try_bind (schnorr_getPublicKey L secpPriv) (\<lambda>pub.
         let nostrPubkey = toHex L pub;
             created = now div 1000;
             serialized = JSON_stringify L (JArr [JNum 0, JStr nostrPubkey, JNum created, JNum kind0,
                            JArr (map JArr tags0), JStr content0]);
             id0 = toHex L (sha256 L (utf8encode L serialized))
         in try_bind (schnorr_sign L (hexdecode L id0) secpPriv) (\<lambda>s.
            Inr \<lparr> ev_id = id0, ev_pubkey = nostrPubkey, ev_created_at = created, ev_kind = kind0,
                  ev_tags = tags0, ev_content = content0, ev_sig = toHex L s \<rparr>)))"

section \<open>The relay link: \<open>RelayClient.publish\<close>\<close>

text \<open>
  The part of a \<open>RelayClient\<close> that \<open>publish\<close> touches: whether \<open>ws\<close> is set, the
  \<open>connected\<close> flag, and the frames handed to \<open>ws.send\<close>.
\<close>

record RelayClient =
  ws :: bool
  connected :: bool
  sent :: "json list"

text \<open>The private \<open>send\<close>: nothing happens without a socket or while disconnected.\<close>

definition client_send :: "RelayClient \<Rightarrow> json \<Rightarrow> RelayClient" where
  "client_send C message = (if ws C \<and> connected C then C\<lparr>sent := sent C @ [message]\<rparr> else C)"

text \<open>
  The promise returned by \<open>publish\<close> with the closure around it: the id of the event,
  the settlement (\<open>Inr ()\<close> resolved, \<open>Inl m\<close> rejected with \<open>Error(m)\<close>), the delay of the
  timer while it is armed, and whether \<open>onMessage\<close> is still registered on the socket.
\<close>

record publish_call =
  event_id :: string
  settled :: "(string + unit) option"
  timer :: "int option"
  listening :: bool

text \<open>A promise settles once: later calls of \<open>resolve\<close> or \<open>reject\<close> do nothing.\<close>

definition settle :: "publish_call \<Rightarrow> string + unit \<Rightarrow> publish_call" where
  "settle p r = (if settled p = None then p\<lparr>settled := Some r\<rparr> else p)"

definition cleanup :: "publish_call \<Rightarrow> publish_call" where
  "cleanup p = p\<lparr>timer := None, listening := False\<rparr>"

definition publish :: "RelayClient \<Rightarrow> NostrEvent \<Rightarrow> RelayClient \<times> publish_call" where
  "publish C event =
     (if \<not> connected C
      then (C, \<lparr>event_id = ev_id event, settled = Some (Inl ''Not connected to relay''),
                timer = None, listening = False\<rparr>)
      else (client_send C (JArr [JStr ''EVENT'', NostrEvent_object event]),
            \<lparr>event_id = ev_id event, settled = None, timer = Some 10000, listening = ws C\<rparr>))"

text \<open>
  Indexing \<open>msg[i]\<close> of a parsed message, for \<open>i\<close> below 10: an element of an array,
  the member named by the digit of an object, a character of a string, a \<open>TypeError\<close> on
  \<open>null\<close>, \<open>undefined\<close> otherwise.
\<close>

definition index_key :: "nat \<Rightarrow> string" where
  "index_key i = [char_of (48 + i)]"

fun js_index :: "json \<Rightarrow> nat \<Rightarrow> string + jsval" where
  "js_index JNull i = Inl (TypeError_read (index_key i))"
| "js_index (JArr xs) i = Inr (if i < length xs then Some (xs ! i) else None)"
| "js_index (JObj kvs) i = Inr (map_of kvs (index_key i))"
| "js_index (JStr s) i = Inr (if i < length s then Some (JStr [s ! i]) else None)"
| "js_index v i = Inr None"

datatype ws_data = Text string | Binary

text \<open>The body of the \<open>try\<close> block of the listener \<open>onMessage\<close>, on a string frame.\<close>

definition publish_onMessage_try :: "node \<Rightarrow> publish_call \<Rightarrow> string \<Rightarrow> string + publish_call" where
  "publish_onMessage_try L p d =
     try_bind (JSON_parse L d) (\<lambda>msg.
     try_bind (js_index msg 0) (\<lambda>m0.
     if m0 \<noteq> Some (JStr ''OK'') then Inr p
     else
       try_bind (js_index msg 1) (\<lambda>m1.
       if m1 \<noteq> Some (JStr (event_id p)) then Inr p
       else
         try_bind (js_index msg 2) (\<lambda>m2.
         if truthy m2 then Inr (settle (cleanup p) (Inr ()))
         else
           try_bind (js_index msg 3) (\<lambda>m3.
           Inr (settle (cleanup p)
                  (Inl (if truthy m3 then js_String L m3 else ''Publish failed''))))))))"

text \<open>
  A frame arriving on the socket: the listener runs only while it is registered, returns
  at once on a frame that is not a string, and ignores whatever its body throws.
\<close>

definition publish_onMessage :: "node \<Rightarrow> publish_call \<Rightarrow> ws_data \<Rightarrow> publish_call" where
  "publish_onMessage L p d =
     (if \<not> listening p then p
      else case d of
        Binary \<Rightarrow> p
      | Text s \<Rightarrow> (case publish_onMessage_try L p s of Inl e \<Rightarrow> p | Inr p' \<Rightarrow> p'))"

text \<open>The timer callback; a cleared timer never runs.\<close>

definition publish_timeout :: "publish_call \<Rightarrow> publish_call" where
  "publish_timeout p =
     (case timer p of None \<Rightarrow> p | Some ms \<Rightarrow> settle (cleanup p) (Inl ''Publish timeout''))"

text \<open>
  A whole call: \<open>publish\<close>, then the frames that arrive before the timer is due, in
  order, then the timer.
\<close>

definition publish_run :: "node \<Rightarrow> RelayClient \<Rightarrow> NostrEvent \<Rightarrow> ws_data list \<Rightarrow> publish_call" where
  "publish_run L C event frames =
     publish_timeout (foldl (publish_onMessage L) (snd (publish C event)) frames)"

text \<open>
  What the claim about \<open>publish\<close> says of one frame: \<open>None\<close> unless it is a string that
  parses to a message with \<open>msg[0] === "OK"\<close> and \<open>msg[1] === event.id\<close>, and then success
  or failure by the truthiness of \<open>msg[2]\<close>, the failure carrying \<open>msg[3]\<close> or the default.
\<close>

definition js_index_opt :: "json \<Rightarrow> nat \<Rightarrow> jsval" where
  "js_index_opt msg i = (case js_index msg i of Inl e \<Rightarrow> None | Inr v \<Rightarrow> v)"

definition acknowledgement :: "node \<Rightarrow> string \<Rightarrow> ws_data \<Rightarrow> (string + unit) option" where
  "acknowledgement L eid d =
     (case d of
        Binary \<Rightarrow> None
      | Text s \<Rightarrow>
          (case JSON_parse L s of
             Inl e \<Rightarrow> None
           | Inr msg \<Rightarrow>
               if js_index msg 0 = Inr (Some (JStr ''OK'')) \<and> js_index msg 1 = Inr (Some (JStr eid))
               then Some (if truthy (js_index_opt msg 2) then Inr ()
                          else Inl (if truthy (js_index_opt msg 3)
                                    then js_String L (js_index_opt msg 3) else ''Publish failed''))
               else None))"

text \<open>The first acknowledgement among the frames, if any.\<close>

fun first_acknowledgement :: "node \<Rightarrow> string \<Rightarrow> ws_data list \<Rightarrow> (string + unit) option" where
  "first_acknowledgement L eid [] = None"
| "first_acknowledgement L eid (d # ds) =
     (case acknowledgement L eid d of
        Some v \<Rightarrow> Some v
      | None \<Rightarrow> first_acknowledgement L eid ds)"

text \<open>
  \<open>disconnect\<close> stops the reconnecting (fields outside this record), closes the socket
  and sets \<open>ws\<close> to \<open>null\<close>. It does not touch the \<open>connected\<close> flag: the listener of
  the socket's \<open>close\<close> event clears it, when that event is dispatched.
\<close>

definition disconnect :: "RelayClient \<Rightarrow> RelayClient" where
  "disconnect C = (if ws C then C\<lparr>ws := False\<rparr> else C)"

definition onClose :: "RelayClient \<Rightarrow> RelayClient" where
  "onClose C = C\<lparr>connected := False\<rparr>"

section \<open>The transport: \<open>RelayTransport\<close>\<close>

record RelayMessage =
  recipientPubKey :: string
  msg_text :: string
  msg_data :: jsval
  senderName :: "string option"

record RelaySendResult =
  success :: bool
  taskId :: jsval
  response :: jsval
  error :: "string option"

text \<open>
  The value handed to the application handler. The fields are those of the source with
  the prefix \<open>in_\<close>; at run time \<open>text\<close> is whatever truthy value the request carried.
\<close>

record IncomingMessage =
  in_text :: jsval
  in_data :: jsval
  in_raw :: jsval

record SenderInfo =
  sender_name :: jsval

record MessageResponse =
  resp_text :: string
  resp_data :: jsval

text \<open>
  An entry of \<open>pendingRequests\<close>: \<open>resolve\<close> names the promise that \<open>send\<close> returned,
  \<open>timeout\<close> the timer of the request.
\<close>

record pending_request =
  resolve :: nat
  timeout :: nat

text \<open>
  What the transport does to the outside and to its own table, in the order in which
  it happens. \<open>Publish i e\<close> is \<open>publish(e)\<close> on the \<open>i\<close>-th client, \<open>OnMessage\<close> a call of the
  application handler, \<open>Resolve p r\<close> a call of the resolver of promise \<open>p\<close>.
\<close>

datatype effect =
    SetTimeout nat int
  | ClearTimeout nat
  | PendingSet string
  | PendingDelete jsval
  | Resolve nat RelaySendResult
  | Publish nat NostrEvent
  | OnMessage IncomingMessage SenderInfo
  | LogInfo string
  | LogWarn string
  | LogError string

text \<open>
  The transport: its configuration (\<open>keypair\<close>, \<open>agentName\<close>, the handler \<open>onMessage\<close>,
  which returns \<open>Inl\<close> when it throws or rejects), \<open>isConnected()\<close> of each of its
  clients, the table \<open>pendingRequests\<close>, the armed timers (each with the request id, the
  promise and the delay its callback closes over), the settled promises of \<open>send\<close>, and
  the effects so far.
\<close>

record RelayTransport =
  keypair :: Keypair
  agentName :: "string option"
  onMessage :: "IncomingMessage \<Rightarrow> SenderInfo \<Rightarrow> string + MessageResponse"
  clients :: "bool list"
  pendingRequests :: "string \<rightharpoonup> pending_request"
  timers :: "nat \<rightharpoonup> (string \<times> nat \<times> int)"
  promises :: "nat \<rightharpoonup> RelaySendResult"
  effects :: "effect list"

definition emit :: "RelayTransport \<Rightarrow> effect \<Rightarrow> RelayTransport" where
  "emit T e = T\<lparr>effects := effects T @ [e]\<rparr>"

text \<open>Calling the resolver of a promise: it settles once.\<close>

definition resolve_promise :: "RelayTransport \<Rightarrow> nat \<Rightarrow> RelaySendResult \<Rightarrow> RelayTransport" where
  "resolve_promise T p r =
     emit (if promises T p = None then T\<lparr>promises := (promises T)(p \<mapsto> r)\<rparr> else T) (Resolve p r)"

definition setTimeout :: "RelayTransport \<Rightarrow> nat \<Rightarrow> string \<Rightarrow> nat \<Rightarrow> int \<Rightarrow> RelayTransport" where
  "setTimeout T t reqId p ms = emit (T\<lparr>timers := (timers T)(t \<mapsto> (reqId, p, ms))\<rparr>) (SetTimeout t ms)"

definition clearTimeout :: "RelayTransport \<Rightarrow> nat \<Rightarrow> RelayTransport" where
  "clearTimeout T t = emit (T\<lparr>timers := (timers T)(t := None)\<rparr>) (ClearTimeout t)"

text \<open>
  \<open>Map.get\<close> and \<open>Map.delete\<close> of a table keyed by strings, at an arbitrary value: only a
  string can be a key of it.
\<close>

fun Map_get :: "(string \<rightharpoonup> 'a) \<Rightarrow> jsval \<Rightarrow> 'a option" where
  "Map_get m (Some (JStr k)) = m k"
| "Map_get m v = None"

fun Map_delete :: "(string \<rightharpoonup> 'a) \<Rightarrow> jsval \<Rightarrow> (string \<rightharpoonup> 'a)" where
  "Map_delete m (Some (JStr k)) = m(k := None)"
| "Map_delete m v = m"

definition pending_set :: "RelayTransport \<Rightarrow> string \<Rightarrow> pending_request \<Rightarrow> RelayTransport" where
  "pending_set T k v = emit (T\<lparr>pendingRequests := (pendingRequests T)(k \<mapsto> v)\<rparr>) (PendingSet k)"

definition pending_delete :: "RelayTransport \<Rightarrow> jsval \<Rightarrow> RelayTransport" where
  "pending_delete T k =
     emit (T\<lparr>pendingRequests := Map_delete (pendingRequests T) k\<rparr>) (PendingDelete k)"

text \<open>\<open>for (client of clients) if (client.isConnected()) client.publish(event)\<close>.\<close>

definition publish_all :: "RelayTransport \<Rightarrow> NostrEvent \<Rightarrow> RelayTransport" where
  "publish_all T event =
     T\<lparr>effects := effects T @
          map (\<lambda>i. Publish i event) (filter (\<lambda>i. clients T ! i) [0..<length (clients T)])\<rparr>"

text \<open>An object literal: a member whose value is \<open>undefined\<close> is not serialised.\<close>

definition object :: "(string \<times> jsval) list \<Rightarrow> json" where
  "object kvs = JObj (concat (map (\<lambda>(k, v). case v of None \<Rightarrow> [] | Some j \<Rightarrow> [(k, j)]) kvs))"

text \<open>\<open>a || b\<close> on optional strings.\<close>

definition or_string :: "string option \<Rightarrow> string \<Rightarrow> string" where
  "or_string a b = (case a of None \<Rightarrow> b | Some s \<Rightarrow> if s = [] then b else s)"

text \<open>
  \<open>parts.find((p) => p.kind === k)\<close>: the first element whose \<open>kind\<close> is the string \<open>k\<close>;
  reading \<open>kind\<close> of a \<open>null\<close> element throws, and so does \<open>find\<close> on anything but an array.
\<close>

fun find_kind :: "json list \<Rightarrow> string \<Rightarrow> string + jsval" where
  "find_kind [] k = Inr None"
| "find_kind (p # ps) k =
     try_bind (js_get (Some p) ''kind'') (\<lambda>v.
       if v = Some (JStr k) then Inr (Some p) else find_kind ps k)"

fun js_find :: "jsval \<Rightarrow> string \<Rightarrow> string + jsval" where
  "js_find None k = Inl (TypeError_read ''find'')"
| "js_find (Some JNull) k = Inl (TypeError_read ''find'')"
| "js_find (Some (JArr ps)) k = find_kind ps k"
| "js_find (Some v) k = Inl ''find is not a function''"

text \<open>\<open>s.substring(0, n)\<close>: only a string has the method.\<close>

fun js_substring :: "jsval \<Rightarrow> nat \<Rightarrow> string + string" where
  "js_substring None n = Inl (TypeError_read ''substring'')"
| "js_substring (Some JNull) n = Inl (TypeError_read ''substring'')"
| "js_substring (Some (JStr s)) n = Inr (take n s)"
| "js_substring (Some v) n = Inl ''substring is not a function''"

text \<open>A value placed in an array that is serialised: \<open>undefined\<close> becomes \<open>null\<close>.\<close>

definition element :: "jsval \<Rightarrow> json" where
  "element v = (case v of None \<Rightarrow> JNull | Some j \<Rightarrow> j)"

subsection \<open>\<open>send\<close>\<close>

text \<open>The JSON-RPC request that \<open>send\<close> builds; \<open>msgId\<close> is the value of \<open>generateMessageId()\<close>.\<close>

definition send_request :: "RelayTransport \<Rightarrow> RelayMessage \<Rightarrow> string \<Rightarrow> json" where
  "send_request T message msgId =
     (let parts =
            [object [(''kind'', Some (JStr ''text'')), (''text'', Some (JStr (msg_text message)))]] @
            (if truthy (msg_data message)
             then [object [(''kind'', Some (JStr ''data'')), (''data'', msg_data message)]] else [])
      in object
           [(''jsonrpc'', Some (JStr ''2.0'')),
            (''method'', Some (JStr ''message/send'')),
            (''params'', Some (object
               [(''message'', Some (object [(''role'', Some (JStr ''user'')), (''parts'', Some (JArr parts))])),
                (''sender'', Some (JStr (or_string (senderName message)
                                          (or_string (agentName T) ''unknown''))))])),
            (''id'', Some (JStr msgId))])"

definition no_relays :: RelaySendResult where
  "no_relays = \<lparr>success = False, taskId = None, response = None, error = Some ''No connected relays''\<rparr>"

definition failed :: "string \<Rightarrow> RelaySendResult" where
  "failed e = \<lparr>success = False, taskId = None, response = None, error = Some e\<rparr>"

text \<open>
  The body of the \<open>try\<close> block of \<open>send\<close>, with what it throws. \<open>ms\<close> is the timeout of the
  call, \<open>now\<close> the clock, \<open>p\<close> the promise created for the call and \<open>t\<close> the timer that
  \<open>setTimeout\<close> returns.
\<close>

definition send_try ::
  "node \<Rightarrow> RelayTransport \<Rightarrow> RelayMessage \<Rightarrow> int \<Rightarrow> string \<Rightarrow> int \<Rightarrow> nat \<Rightarrow> nat
     \<Rightarrow> RelayTransport \<times> string option" where
  "send_try L T message ms msgId now p t =
     (let recipient = hexdecode L (recipientPubKey message);
          jsonRpcRequest = send_request T message msgId
      in case encryptMessage L (JSON_stringify L jsonRpcRequest) (keypair T) recipient of
           Inl e \<Rightarrow> (T, Some e)
         | Inr encrypted \<Rightarrow>
            (case createNostrEvent L now 4 (JSON_stringify L (EncryptedMessage_object encrypted))
                    [[JStr ''p'', JStr (recipientPubKey message)],
                     [JStr ''t'', JStr (recipientPubKey message)]]
                    (privateKey (keypair T)) of
               Inl e \<Rightarrow> (T, Some e)
             | Inr event \<Rightarrow>
                 let T1 = setTimeout T t msgId p ms;
                     T2 = pending_set T1 msgId \<lparr>resolve = p, timeout = t\<rparr>;
                     T3 = publish_all T2 event;
                     published = list_ex (\<lambda>c. c) (clients T)
                 in if \<not> published
                    then (resolve_promise
                            (pending_delete (clearTimeout T3 t) (Some (JStr msgId))) p no_relays, None)
                    else (T3, None)))"

definition send ::
  "node \<Rightarrow> RelayTransport \<Rightarrow> RelayMessage \<Rightarrow> int \<Rightarrow> string \<Rightarrow> int \<Rightarrow> nat \<Rightarrow> nat \<Rightarrow> RelayTransport" where
  "send L T message ms msgId now p t =
     (case send_try L T message ms msgId now p t of
        (T', None) \<Rightarrow> T'
      | (T', Some e) \<Rightarrow> resolve_promise T' p (failed e))"

text \<open>
  The callback of the timer armed by \<open>send\<close>. A timer that was cleared, or has fired,
  is not in \<open>timers\<close> and never runs.
\<close>

definition request_timeout :: "node \<Rightarrow> RelayTransport \<Rightarrow> nat \<Rightarrow> RelayTransport" where
  "request_timeout L T t =
     (case timers T t of
        None \<Rightarrow> T
      | Some (reqId, p, ms) \<Rightarrow>
          resolve_promise
            (pending_delete (T\<lparr>timers := (timers T)(t := None)\<rparr>) (Some (JStr reqId))) p
            (failed (''Request timed out after '' @ js_String L (Some (JNum ms)) @ ''ms'')))"

subsection \<open>\<open>handleResponse\<close>\<close>

text \<open>
  The result that \<open>handleResponse\<close> computes between removing the entry and calling the
  resolver. \<open>find\<close> throws when \<open>parts\<close> is truthy and not an array, or holds a \<open>null\<close>.
\<close>

definition handleResponse_result :: "node \<Rightarrow> json \<Rightarrow> string + RelaySendResult" where
  "handleResponse_result L r =
     (let err = js_get_opt (Some r) ''error''
      in if truthy err
         then Inr (failed (js_String L (js_get_opt err ''code'') @ '': '' @
                           js_String L (js_get_opt err ''message'')))
         else
           let result = js_get_opt (Some r) ''result'';
               parts = js_get_opt (js_get_opt result ''message'') ''parts''
           in try_bind (if truthy parts
                        then try_bind (js_find parts ''text'') (\<lambda>textPart. Inr (js_get_opt textPart ''text''))
                        else Inr None) (\<lambda>responseText.
              Inr \<lparr>success = True, taskId = js_get_opt (js_get_opt result ''task'') ''id'',
                    response = responseText, error = None\<rparr>))"

definition handleResponse :: "node \<Rightarrow> RelayTransport \<Rightarrow> json \<Rightarrow> RelayTransport \<times> string option" where
  "handleResponse L T r =
     (case js_get (Some r) ''id'' of
        Inl e \<Rightarrow> (T, Some e)
      | Inr rid \<Rightarrow>
         (case Map_get (pendingRequests T) rid of
            None \<Rightarrow> (T, None)
          | Some pending \<Rightarrow>
              let T1 = clearTimeout T (timeout pending);
                  T2 = pending_delete T1 rid
              in (case handleResponse_result L r of
                    Inl e \<Rightarrow> (T2, Some e)
                  | Inr res \<Rightarrow> (resolve_promise T2 (resolve pending) res, None))))"

subsection \<open>\<open>handleIncomingMessage\<close>\<close>

text \<open>The JSON-RPC response built for a request; \<open>tid\<close> is the value of \<open>generateTaskId()\<close>.\<close>

definition response_json :: "json \<Rightarrow> string \<Rightarrow> string \<Rightarrow> jsval \<Rightarrow> json" where
  "response_json jsonRpcRequest tid responseText responseData =
     (let responseParts =
            [object [(''kind'', Some (JStr ''text'')), (''text'', Some (JStr responseText))]] @
            (if truthy responseData
             then [object [(''kind'', Some (JStr ''data'')), (''data'', responseData)]] else []);
          result = object
            [(''task'', Some (object [(''id'', Some (JStr tid)),
                                     (''status'', Some (object [(''state'', Some (JStr ''completed''))]))])),
             (''message'', Some (object [(''role'', Some (JStr ''agent'')),
                                        (''parts'', Some (JArr responseParts))]))]
      in object [(''jsonrpc'', Some (JStr ''2.0'')),
                 (''result'', Some result),
                 (''id'', js_get_opt (Some jsonRpcRequest) ''id'')])"

text \<open>\<open>params.sender || senderPubKey.substring(0, 16) + "..."\<close>.\<close>

definition sender_name_of :: "jsval \<Rightarrow> jsval \<Rightarrow> string + jsval" where
  "sender_name_of sender senderKeyHex =
     (if truthy sender then Inr sender
      else try_bind (js_substring senderKeyHex 16) (\<lambda>s. Inr (Some (JStr (s @ ''...'')))))"

text \<open>
  The call of the application handler inside its \<open>try\<close>: the text and data of the
  response are those of the handler, or the default text with no data when the handler
  throws, which is logged. The handler is awaited; the model runs it to completion here.
\<close>

definition call_handler ::
  "RelayTransport \<Rightarrow> IncomingMessage \<Rightarrow> SenderInfo \<Rightarrow> RelayTransport \<times> string \<times> jsval" where
  "call_handler T incomingMessage senderInfo =
     (let T1 = emit T (OnMessage incomingMessage senderInfo)
      in case onMessage T incomingMessage senderInfo of
           Inl e \<Rightarrow> (emit T1 (LogError (''Handler error: '' @ e)), ''Message received'', None)
         | Inr h \<Rightarrow> (T1, resp_text h, resp_data h))"

text \<open>
  The rest of \<open>handleIncomingMessage\<close> after the handler: the response is built,
  encrypted for the sender, wrapped in an event and published on every connected client.
\<close>

definition publish_response ::
  "node \<Rightarrow> RelayTransport \<Rightarrow> json \<Rightarrow> jsval \<Rightarrow> string \<Rightarrow> int \<Rightarrow> string \<Rightarrow> jsval
     \<Rightarrow> RelayTransport \<times> string option" where
  "publish_response L T jsonRpcRequest senderKeyHex tid now responseText responseData =
     (let jsonRpcResponse = response_json jsonRpcRequest tid responseText responseData
      in case Buffer_from L senderKeyHex Hex of
           Inl e \<Rightarrow> (T, Some e)
         | Inr senderPubKeyBuf \<Rightarrow>
      case encryptMessage L (JSON_stringify L jsonRpcResponse) (keypair T) senderPubKeyBuf of
           Inl e \<Rightarrow> (T, Some e)
         | Inr encrypted \<Rightarrow>
      case createNostrEvent L now 4 (JSON_stringify L (EncryptedMessage_object encrypted))
             [[JStr ''p'', element senderKeyHex], [JStr ''t'', element senderKeyHex]]
             (privateKey (keypair T)) of
           Inl e \<Rightarrow> (T, Some e)
         | Inr event \<Rightarrow> (publish_all T event, None))"

text \<open>
  \<open>handleIncomingMessage\<close>, with what it throws (the caller catches it); \<open>senderKeyHex\<close>
  is its parameter \<open>senderPubKey\<close>. The last step is the line logged at the end, which
  throws when the text is not a string.
\<close>

definition handleIncomingMessage ::
  "node \<Rightarrow> RelayTransport \<Rightarrow> json \<Rightarrow> jsval \<Rightarrow> string \<Rightarrow> int \<Rightarrow> RelayTransport \<times> string option" where
  "handleIncomingMessage L T jsonRpcRequest senderKeyHex tid now =
     (case js_get (Some jsonRpcRequest) ''params'' of
        Inl e \<Rightarrow> (T, Some e)
      | Inr params \<Rightarrow>
     let message = js_get_opt params ''message''
     in if \<not> truthy message then (T, None) else
     case js_find (js_get_opt message ''parts'') ''text'' of
        Inl e \<Rightarrow> (T, Some e)
      | Inr textPart \<Rightarrow>
     case js_find (js_get_opt message ''parts'') ''data'' of
        Inl e \<Rightarrow> (T, Some e)
      | Inr dataPart \<Rightarrow>
     if \<not> truthy (js_get_opt textPart ''text'') then (T, None) else
     let incomingMessage = \<lparr>in_text = js_get_opt textPart ''text'',
                             in_data = js_get_opt dataPart ''data'', in_raw = message\<rparr>
     in case sender_name_of (js_get_opt params ''sender'') senderKeyHex of
        Inl e \<Rightarrow> (T, Some e)
      | Inr name \<Rightarrow>
     let handled = call_handler T incomingMessage \<lparr>sender_name = name\<rparr>
     in case publish_response L (fst handled) jsonRpcRequest senderKeyHex tid now
               (fst (snd handled)) (snd (snd handled)) of
        (T3, Some e) \<Rightarrow> (T3, Some e)
      | (T3, None) \<Rightarrow>
     case js_substring (js_get_opt textPart ''text'') 50 of
        Inl e \<Rightarrow> (T3, Some e)
      | Inr shown \<Rightarrow>
          (emit T3 (LogInfo (''Received message from '' @ js_String L name @ '': '' @
                            [CHR 0x22] @ shown @ ''...'' @ [CHR 0x22])), None))"

subsection \<open>\<open>handleEvent\<close>\<close>

text \<open>The \<open>catch\<close> of \<open>handleEvent\<close>: whatever was thrown is logged.\<close>

definition catch_event :: "RelayTransport \<times> string option \<Rightarrow> RelayTransport" where
  "catch_event r =
     (case r of
        (T, None) \<Rightarrow> T
      | (T, Some e) \<Rightarrow> emit T (LogError (''Error processing event: '' @ e)))"

definition handleEvent :: "node \<Rightarrow> RelayTransport \<Rightarrow> NostrEvent \<Rightarrow> string \<Rightarrow> int \<Rightarrow> RelayTransport" where
  "handleEvent L T event tid now =
     (case JSON_parse L (ev_content event) of
        Inl e \<Rightarrow> catch_event (T, Some e)
      | Inr encrypted \<Rightarrow>
         (case decryptMessage L encrypted (keypair T) of
            Failure e \<Rightarrow> emit T (LogWarn (''Failed to decrypt message: '' @ e))
          | Success plaintext \<Rightarrow>
             (case JSON_parse L plaintext of
                Inl e \<Rightarrow> catch_event (T, Some e)
              | Inr jsonRpc \<Rightarrow>
                 (case js_get (Some jsonRpc) ''result'' of
                    Inl e \<Rightarrow> catch_event (T, Some e)
                  | Inr result \<Rightarrow>
                      if truthy result \<or> truthy (js_get_opt (Some jsonRpc) ''error'')
                      then catch_event (handleResponse L T jsonRpc)
                      else if js_get_opt (Some jsonRpc) ''method'' = Some (JStr ''message/send'')
                      then catch_event (handleIncomingMessage L T jsonRpc
                                          (js_get_opt (Some encrypted) ''senderPubKey'') tid now)
                      else T))))"

section \<open>What is assumed of the runtime\<close>

text \<open>
  The contract of the Node functions that the codec relies on: \<open>randomBytes(n)\<close> returns
  \<open>n\<close> bytes, a SHA-256 digest has 32 bytes, decoding inverts encoding for base64 and
  hex, and ChaCha20-Poly1305 with a 32-byte key and a 12-byte nonce seals any message
  with a 16-byte tag and opens what it sealed.
\<close>

definition runtime_ok :: "node \<Rightarrow> bool" where
  "runtime_ok L \<longleftrightarrow>
     (\<forall>n. length (randomBytes L n) = n) \<and>
     (\<forall>x. length (sha256 L x) = 32) \<and>
     (\<forall>b. b64decode L (toBase64 L b) = b) \<and>
     (\<forall>b. hexdecode L (toHex L b) = b) \<and>
     (\<forall>k n m. length k = 32 \<and> length n = 12 \<longrightarrow>
        (\<exists>c t. chacha20_seal L k n m = Inr (c, t) \<and> length t = 16 \<and>
               chacha20_open L k n c t = Inr m))"

text \<open>A valid Ed25519 keypair: signing succeeds and the signature verifies.\<close>

definition valid_keypair :: "node \<Rightarrow> Keypair \<Rightarrow> bool" where
  "valid_keypair L K \<longleftrightarrow>
     (\<forall>d. \<exists>s. cryptoSign L d (privateKey K) = Inr s \<and>
             cryptoVerify L d s (publicKey K) = Inr True)"

text \<open>The Schnorr functions that \<open>createNostrEvent\<close> calls do not throw.\<close>

definition schnorr_ok :: "node \<Rightarrow> bool" where
  "schnorr_ok L \<longleftrightarrow>
     (\<forall>k. \<exists>pk. schnorr_getPublicKey L k = Inr pk) \<and> (\<forall>m k. \<exists>s. schnorr_sign L m k = Inr s)"

section \<open>Notions used in the statements\<close>

text \<open>
  The four fields of an envelope as \<open>decryptMessage\<close> decodes them in its first four
  statements (the same in both versions of the module).
\<close>

definition decode_envelope :: "node \<Rightarrow> json \<Rightarrow> string + (buffer \<times> buffer \<times> buffer \<times> buffer)" where
  "decode_envelope L encrypted =
     try_bind (js_get (Some encrypted) ''ciphertext'') (\<lambda>f1.
     try_bind (Buffer_from L f1 Base64) (\<lambda>ciphertext.
     try_bind (js_get (Some encrypted) ''nonce'') (\<lambda>f2.
     try_bind (Buffer_from L f2 Base64) (\<lambda>nonce.
     try_bind (js_get (Some encrypted) ''senderPubKey'') (\<lambda>f3.
     try_bind (Buffer_from L f3 Hex) (\<lambda>senderPubKey.
     try_bind (js_get (Some encrypted) ''signature'') (\<lambda>f4.
     try_bind (Buffer_from L f4 Base64) (\<lambda>signature.
     Inr (ciphertext, nonce, senderPubKey, signature)))))))))"

fun is_OnMessage :: "effect \<Rightarrow> bool" where
  "is_OnMessage (OnMessage m s) = True"
| "is_OnMessage e = False"

fun is_Publish :: "effect \<Rightarrow> bool" where
  "is_Publish (Publish i e) = True"
| "is_Publish e = False"

text \<open>The calls of the application handler, and the events published, so far.\<close>

definition handler_calls :: "RelayTransport \<Rightarrow> effect list" where
  "handler_calls T = filter is_OnMessage (effects T)"

definition published :: "RelayTransport \<Rightarrow> effect list" where
  "published T = filter is_Publish (effects T)"

text \<open>The indices of the clients that are connected, in the order of the fan-out.\<close>

definition connected_clients :: "RelayTransport \<Rightarrow> nat list" where
  "connected_clients T = filter (\<lambda>i. clients T ! i) [0..<length (clients T)]"

text \<open>
  The state in which \<open>send\<close> leaves the transport when no client is connected: timer
  armed, entry registered, timer cleared, entry deleted, promise resolved.
\<close>

definition rolled_back :: "RelayTransport \<Rightarrow> int \<Rightarrow> string \<Rightarrow> nat \<Rightarrow> nat \<Rightarrow> RelayTransport" where
  "rolled_back T ms msgId p t =
     resolve_promise
       (pending_delete
          (clearTimeout (pending_set (setTimeout T t msgId p ms) msgId \<lparr>resolve = p, timeout = t\<rparr>) t)
          (Some (JStr msgId))) p no_relays"

text \<open>
  A message has a text: it is truthy, its \<open>parts\<close> is an array, and some part of kind
  \<open>text\<close> has a truthy \<open>text\<close>.
\<close>

definition has_text :: "jsval \<Rightarrow> bool" where
  "has_text message \<longleftrightarrow>
     truthy message \<and>
     (case js_get_opt message ''parts'' of
        Some (JArr ps) \<Rightarrow>
          list_ex (\<lambda>p. js_get_opt (Some p) ''kind'' = Some (JStr ''text'') \<and>
                       truthy (js_get_opt (Some p) ''text'')) ps
      | _ \<Rightarrow> False)"

text \<open>
  The locals of \<open>handleIncomingMessage\<close> as functions of the request: \<open>params.message\<close>, the
  \<open>senderInfo\<close> for a sender key that is a string, and the \<open>incomingMessage\<close> built from the
  parts found.
\<close>

definition req_message :: "json \<Rightarrow> jsval" where
  "req_message req = js_get_opt (js_get_opt (Some req) ''params'') ''message''"

definition req_sender :: "json \<Rightarrow> string \<Rightarrow> SenderInfo" where
  "req_sender req spk =
     (let sender = js_get_opt (js_get_opt (Some req) ''params'') ''sender''
      in \<lparr>sender_name = (if truthy sender then sender else Some (JStr (take 16 spk @ ''...'')))\<rparr>)"

definition incoming_of :: "json \<Rightarrow> jsval \<Rightarrow> jsval \<Rightarrow> IncomingMessage" where
  "incoming_of req textPart dataPart =
     \<lparr>in_text = js_get_opt textPart ''text'', in_data = js_get_opt dataPart ''data'',
      in_raw = req_message req\<rparr>"

section \<open>A small runtime and two peers\<close>

text \<open>
  An executable instance of the runtime, for running the model on concrete inputs: one
  character per byte as every text encoding, a digest that pads or cuts to 32 bytes, a
  signature that prepends the key (a keypair has equal halves), a key import that takes
  every key, a cipher that reverses the message and uses the first 16 bytes of the key as
  tag, and a key agreement that always yields the same secret.
\<close>

definition bytes_of :: "string \<Rightarrow> buffer" where
  "bytes_of s = map (\<lambda>c. word_of_nat (of_char c)) s"

definition chars_of :: "buffer \<Rightarrow> string" where
  "chars_of b = map (\<lambda>w. char_of (unat w)) b"

definition plain_String :: "jsval \<Rightarrow> string" where
  "plain_String v =
     (case v of
        None \<Rightarrow> ''undefined''
      | Some JNull \<Rightarrow> ''null''
      | Some (JBool b) \<Rightarrow> (if b then ''true'' else ''false'')
      | Some (JNum n) \<Rightarrow> ''number''
      | Some (JStr s) \<Rightarrow> s
      | Some (JArr xs) \<Rightarrow> ''array''
      | Some (JObj kvs) \<Rightarrow> ''[object Object]'')"

definition small_node :: node where
  "small_node =
     \<lparr> randomBytes = (\<lambda>n. replicate n 0x37),
       sha256 = (\<lambda>x. take 32 (x @ replicate 32 0x2E)),
       cryptoSign = (\<lambda>d k. Inr (k @ d)),
       cryptoVerify = (\<lambda>d s k. Inr (s = k @ d)),
       createPrivateKey = (\<lambda>k. Inr k),
       createPublicKey = (\<lambda>k. Inr k),
       Sign_sign = (\<lambda>a d k. Inr (k @ d)),
       Verify_verify = (\<lambda>a d k s. Inr (s = k @ d)),
       chacha20_seal = (\<lambda>k n m. if length k = 32 \<and> length n = 12 then Inr (rev m, take 16 k)
                                 else Inl ''Invalid key length''),
       chacha20_open = (\<lambda>k n c t. if length k = 32 \<and> length n = 12 \<and> t = take 16 k then Inr (rev c)
                                   else Inl ''Unsupported state or unable to authenticate data''),
       x25519 = (\<lambda>a b. Inr (replicate 32 0x4B)),
       toBase64 = chars_of,
       b64decode = bytes_of,
       toHex = chars_of,
       hexdecode = bytes_of,
       utf8encode = bytes_of,
       toUtf8 = chars_of,
       Buffer_from_other = (\<lambda>v. Inl ''The first argument must be of type string''),
       JSON_parse = (\<lambda>s. Inl ''Unexpected token''),
       JSON_stringify = (\<lambda>j. ''null''),
       js_String = plain_String,
       schnorr_getPublicKey = (\<lambda>k. Inr k),
       schnorr_sign = (\<lambda>m k. Inr (k @ m)) \<rparr>"

text \<open>
  The same runtime with a JSON that knows the documents of a table: \<open>JSON.parse\<close> of a
  name is its document, \<open>JSON.stringify\<close> of a document is its name.
\<close>

definition scripted :: "(string \<times> json) list \<Rightarrow> node" where
  "scripted table = small_node
     \<lparr> JSON_parse := (\<lambda>s. case map_of table s of None \<Rightarrow> Inl ''Unexpected token'' | Some j \<Rightarrow> Inr j),
       JSON_stringify := (\<lambda>j. case find (\<lambda>kv. snd kv = j) table of None \<Rightarrow> ''null'' | Some kv \<Rightarrow> fst kv) \<rparr>"

text \<open>The peers: their identities are \<open>A2\<close> and \<open>B1\<close>.\<close>

definition alice :: Keypair where
  "alice = \<lparr>publicKey = [0x41, 0x32], privateKey = [0x41, 0x32]\<rparr>"

definition bob :: Keypair where
  "bob = \<lparr>publicKey = [0x42, 0x31], privateKey = [0x42, 0x31]\<rparr>"

text \<open>The envelope with which \<open>A\<close> sends \<open>P\<close> to the key \<open>R\<close>, as an object.\<close>

definition sealed :: "string \<Rightarrow> Keypair \<Rightarrow> buffer \<Rightarrow> json" where
  "sealed P A R = (case encryptMessage small_node P A R of
                     Inl e \<Rightarrow> JNull | Inr m \<Rightarrow> EncryptedMessage_object m)"

text \<open>An envelope whose signature is not alice's.\<close>

definition forged :: json where
  "forged = JObj [(''ciphertext'', JStr ''x''), (''nonce'', JStr ''y''),
                  (''senderPubKey'', JStr ''A2''), (''signature'', JStr ''bad'')]"






text \<open>
  Alice's transport with the request \<open>msg-1\<close> in flight, the same with nothing in flight,
  and the same with no client connected.
\<close>

definition waiting :: RelayTransport where
  "waiting =
     \<lparr> keypair = alice, agentName = Some ''alice'',
       onMessage = (\<lambda>m s. Inr \<lparr>resp_text = ''ack'', resp_data = None\<rparr>),
       clients = [True],
       pendingRequests = [''msg-1'' \<mapsto> \<lparr>resolve = 0, timeout = 0\<rparr>],
       timers = [0 \<mapsto> (''msg-1'', 0, 30000)],
       promises = Map.empty,
       effects = [] \<rparr>"

definition idle :: RelayTransport where
  "idle = waiting\<lparr>pendingRequests := Map.empty, timers := Map.empty\<rparr>"

definition offline :: RelayTransport where
  "offline = waiting\<lparr>clients := [False, False]\<rparr>"

text \<open>
  Bob's transport, with three clients of which the second is disconnected; its handler
  answers \<open>pong\<close>, or throws.
\<close>

definition serving :: RelayTransport where
  "serving =
     \<lparr> keypair = bob, agentName = Some ''bob'',
       onMessage = (\<lambda>m s. Inr \<lparr>resp_text = ''pong'', resp_data = None\<rparr>),
       clients = [True, False, True],
       pendingRequests = Map.empty, timers = Map.empty, promises = Map.empty, effects = [] \<rparr>"

definition failing :: RelayTransport where
  "failing = serving\<lparr>onMessage := (\<lambda>m s. Inl ''boom'')\<rparr>"

text \<open>
  The documents exchanged: alice's request \<open>ping\<close> with its text part, the fallback
  acknowledgement \<open>ack\<close> of it, a response \<open>pong\<close> to it, and a request \<open>silent\<close> whose only
  text is empty.
\<close>

definition hello :: RelayMessage where
  "hello = \<lparr>recipientPubKey = ''B1'', msg_text = ''ping'', msg_data = None, senderName = None\<rparr>"

definition ping :: json where
  "ping = send_request waiting hello ''msg-1''"

definition ping_text :: jsval where
  "ping_text = Some (JObj [(''kind'', JStr ''text''), (''text'', JStr ''ping'')])"

definition ack :: json where
  "ack = response_json ping ''task-1'' ''Message received'' None"

definition pong :: json where
  "pong = JObj
     [(''jsonrpc'', JStr ''2.0''),
      (''result'', JObj
         [(''task'', JObj [(''id'', JStr ''task-1'')]),
          (''message'', JObj
             [(''role'', JStr ''agent''),
              (''parts'', JArr [JObj [(''kind'', JStr ''text''), (''text'', JStr ''pong'')]])])]),
      (''id'', JStr ''msg-1'')]"

definition silent :: json where
  "silent = JObj
     [(''jsonrpc'', JStr ''2.0''),
      (''method'', JStr ''message/send''),
      (''params'', JObj
         [(''message'', JObj
             [(''role'', JStr ''user''),
              (''parts'', JArr [JObj [(''kind'', JStr ''text''), (''text'', JStr [])]])])]),
      (''id'', JStr ''msg-7'')]"

text \<open>The JSON of the runtime on which the peers run, and an event with a given content.\<close>

definition script :: "(string \<times> json) list" where
  "script =
     [(''PING'', ping), (''ACK'', ack), (''PONG'', pong), (''SILENT'', silent),
      (''E-ACK'', sealed ''ACK'' bob (publicKey alice)),
      (''E-PING'', sealed ''PING'' alice (publicKey bob)),
      (''E-PONG'', sealed ''PONG'' bob (publicKey alice)),
      (''E-SILENT'', sealed ''SILENT'' alice (publicKey bob))]"

definition relay_node :: node where
  "relay_node = scripted script"

definition wire :: "string \<Rightarrow> NostrEvent" where
  "wire c = \<lparr>ev_id = ''e1'', ev_pubkey = ''n1'', ev_created_at = 5, ev_kind = 4,
             ev_tags = [], ev_content = c, ev_sig = ''s1''\<rparr>"

text \<open>
  Two relay links, the messages a relay may answer a publish with, and the frames of one
  run: the first acknowledgement of the event \<open>e1\<close> among them refuses it.
\<close>

definition link_up :: RelayClient where
  "link_up = \<lparr>ws = True, connected = True, sent = []\<rparr>"

definition link_down :: RelayClient where
  "link_down = \<lparr>ws = True, connected = False, sent = []\<rparr>"

definition ack_node :: node where
  "ack_node = scripted
     [(''notice'', JArr [JStr ''NOTICE'', JStr ''hi'']),
      (''ok-other'', JArr [JStr ''OK'', JStr ''e9'', JBool True, JStr []]),
      (''ok-refused'', JArr [JStr ''OK'', JStr ''e1'', JBool False, JStr ''blocked'']),
      (''ok-late'', JArr [JStr ''OK'', JStr ''e1'', JBool True, JStr []])]"

definition arrivals :: "ws_data list" where
  "arrivals = [Binary, Text ''junk'', Text ''notice'', Text ''ok-other'', Text ''ok-refused'', Text ''ok-late'']"

section \<open>Properties of the envelope codec\<close>

subsection \<open>Key derivation and slicing\<close>

lemma Buffer_compare_swap: "Buffer_compare b a = - Buffer_compare a b"
  by (induction a b rule: Buffer_compare.induct) auto

lemma Buffer_compare_eq: "Buffer_compare a b = 0 \<Longrightarrow> a = b"
  by (induction a b rule: Buffer_compare.induct) (auto split: if_splits)

text \<open>Sorting makes the pair, and so the key, independent of the direction.\<close>

lemma sort2_commute: "sort2 a b = sort2 b a"
  using Buffer_compare_swap [of a b] Buffer_compare_eq [of a b]
  by (auto simp: sort2_def)

lemma keyMaterial_commute: "keyMaterial L a b = keyMaterial L b a"
  by (simp add: keyMaterial_def sort2_commute [of a b])

lemma subarray_tag:
  "length t = 16 \<Longrightarrow> subarray (c @ t) (int (length (c @ t)) - 16) (int (length (c @ t))) = t"
  by (simp add: subarray_def clamp_index_def)

lemma subarray_data:
  "length t = 16 \<Longrightarrow> subarray (c @ t) 0 (int (length (c @ t)) - 16) = c"
  by (simp add: subarray_def clamp_index_def)


subsection \<open>The small runtime meets the contract\<close>

lemma byte_char: "word_of_nat (unat (w::8 word) mod 256) = w"
proof -
  have "unat w < 2 ^ LENGTH(8)" by (rule unsigned_less)
  then have "unat w mod 256 = unat w" by simp
  then show ?thesis by simp
qed

lemma char_byte: "char_of (unat (word_of_nat (of_char c) :: 8 word)) = c"
  by (simp add: unat_of_nat)

lemma bytes_of_chars_of: "bytes_of (chars_of b) = b"
  by (induction b) (simp_all add: bytes_of_def chars_of_def of_char_of byte_char)

lemma chars_of_bytes_of: "chars_of (bytes_of s) = s"
  by (induction s) (simp_all add: bytes_of_def chars_of_def char_byte)

lemma small_node_ok: "runtime_ok small_node"
  by (auto simp: runtime_ok_def small_node_def bytes_of_chars_of)

lemma alice_valid: "valid_keypair small_node alice"
  by (simp add: valid_keypair_def small_node_def alice_def)

lemma bob_valid: "valid_keypair small_node bob"
  by (simp add: valid_keypair_def small_node_def bob_def)

lemma small_node_same: "small_node\<lparr>chacha20_open := chacha20_open small_node, x25519 := x25519 small_node\<rparr> = small_node"
  by simp

subsection \<open>Round trip\<close>

lemma encrypt_then_decrypt_utf8:
  assumes L: "runtime_ok L" and A: "valid_keypair L A"
  shows "\<exists>m. encryptMessage L P A R = Inr m \<and>
             senderPubKey m = toHex L (publicKey A) \<and>
             (\<forall>B. publicKey B = R \<longrightarrow>
                decryptMessage L (EncryptedMessage_object m) B = Success (toUtf8 L (utf8encode L P)))"
proof -
  let ?n = "randomBytes L 12"
  let ?k = "keyMaterial L (publicKey A) R"
  have kl: "length ?k = 32" using L by (simp add: runtime_ok_def keyMaterial_def Let_def)
  have nl: "length ?n = 12" using L by (simp add: runtime_ok_def)
  from L kl nl obtain c t where
    seal: "chacha20_seal L ?k ?n (utf8encode L P) = Inr (c, t)" and t: "length t = 16"
    and op: "chacha20_open L ?k ?n c t = Inr (utf8encode L P)"
    unfolding runtime_ok_def by blast
  from A obtain s where
    sg: "cryptoSign L ((c @ t) @ ?n) (privateKey A) = Inr s"
    and vf: "cryptoVerify L ((c @ t) @ ?n) s (publicKey A) = Inr True"
    unfolding valid_keypair_def by blast
  let ?m = "\<lparr> ciphertext = toBase64 L (c @ t), nonce = toBase64 L ?n,
               senderPubKey = toHex L (publicKey A), signature = toBase64 L s,
               ephemeralPubKey = [] \<rparr>"
  have enc: "encryptMessage L P A R = Inr ?m"
    using seal sg by (simp add: encryptMessage_def Let_def)
  have b64: "\<And>b. b64decode L (toBase64 L b) = b" and hex: "\<And>b. hexdecode L (toHex L b) = b"
    using L by (simp_all add: runtime_ok_def)
  have "decryptMessage_try L (EncryptedMessage_object ?m) B = Inr (Success (toUtf8 L (utf8encode L P)))"
    if "publicKey B = R" for B
    using vf op t subarray_tag [OF t, of c] subarray_data [OF t, of c] that
    by (simp add: decryptMessage_try_def EncryptedMessage_object_def b64 hex Let_def
          keyMaterial_commute [of L "publicKey A" "publicKey B"])
  then have "\<forall>B. publicKey B = R \<longrightarrow>
      decryptMessage L (EncryptedMessage_object ?m) B = Success (toUtf8 L (utf8encode L P))"
    by (simp add: decryptMessage_def)
  with enc show ?thesis by simp
qed

lemma encrypt_then_decrypt:
  assumes L: "runtime_ok L" and A: "valid_keypair L A" and P: "toUtf8 L (utf8encode L P) = P"
  shows "\<exists>m. encryptMessage L P A R = Inr m \<and>
             senderPubKey m = toHex L (publicKey A) \<and>
             (\<forall>B. publicKey B = R \<longrightarrow> decryptMessage L (EncryptedMessage_object m) B = Success P)"
  using encrypt_then_decrypt_utf8 [OF L A, of P R] by (simp add: P)

lemma try_bind_Inr: "try_bind x f = Inr y \<Longrightarrow> \<exists>a. x = Inr a \<and> f a = Inr y"
  by (cases x) simp_all

lemma try_bind_throws: "(\<And>a. \<exists>e. f a = Inl e) \<Longrightarrow> \<exists>e. try_bind x f = Inl e"
  by (cases x) simp_all

lemma try_bind_assoc: "try_bind (try_bind x f) g = try_bind x (\<lambda>a. try_bind (f a) g)"
  by (cases x) simp_all

lemma Buffer_from_codec:
  "Buffer_from (L\<lparr>chacha20_open := f, x25519 := g\<rparr>) v enc = Buffer_from L v enc"
  by (cases "(L, v, enc)" rule: Buffer_from.cases) simp_all

lemma decode_envelope_codec:
  "decode_envelope (L\<lparr>chacha20_open := f, x25519 := g\<rparr>) env = decode_envelope L env"
  by (simp add: decode_envelope_def Buffer_from_codec)

lemma decryptMessage_try_decoded:
  "decode_envelope L env = Inr (ct, n, pk, sg) \<Longrightarrow>
   decryptMessage_try L env K =
     try_bind (cryptoVerify L (ct @ n) sg pk) (\<lambda>ok.
        if \<not> ok then Inr (Failure ''Invalid signature'')
        else
          try_bind (chacha20_open L (keyMaterial L pk (publicKey K)) n
                      (subarray ct 0 (int (length ct) - 16))
                      (subarray ct (int (length ct) - 16) (int (length ct)))) (\<lambda>decrypted.
             Inr (Success (toUtf8 L decrypted))))"
  unfolding decode_envelope_def decryptMessage_try_def
  by (auto dest!: try_bind_Inr simp: Let_def cong: if_cong)

lemma small_utf8: "toUtf8 small_node (utf8encode small_node P) = P"
  by (simp add: small_node_def chars_of_bytes_of)

subsection \<open>The codec of \<open>src/relay/encryption.ts\<close> throws\<close>

text \<open>
  \<open>sign\<close> and \<open>verify\<close> of that module throw whatever they are given: by the key import,
  or else by \<open>createSign(null)\<close> and \<open>createVerify(null)\<close>.
\<close>

lemma sign_box_throws: "\<exists>e. sign_box L d k = Inl e"
  unfolding sign_box_def by (rule try_bind_throws) (simp add: createSign_def)

lemma verify_box_throws: "\<exists>e. verify_box L d s k = Inl e"
  unfolding verify_box_def by (rule try_bind_throws) (simp add: createVerify_def)

lemma verify_box_imported:
  "createPublicKey L k = Inr key \<Longrightarrow> verify_box L d s k = Inl (ERR_INVALID_ARG_TYPE ''algorithm'')"
  by (simp add: verify_box_def createVerify_def)

text \<open>So \<open>encryptMessage\<close> returns no envelope, and \<open>decryptMessage\<close> no plaintext.\<close>

lemma encryptMessage_box_throws: "\<exists>e. encryptMessage_box L P A R = Inl e"
  unfolding encryptMessage_box_def
proof (rule try_bind_throws)
  fix a :: "buffer \<times> buffer"
  obtain n c where a: "a = (n, c)" by (cases a)
  from sign_box_throws [of L c "privateKey A"] obtain e where "sign_box L c (privateKey A) = Inl e" ..
  then show "\<exists>e. (case a of (n, c) \<Rightarrow>
                    try_bind (sign_box L c (privateKey A)) (\<lambda>s.
                      Inr \<lparr> ciphertext_box = toBase64 L c,
                            nonce_box = toBase64 L n,
                            senderPubKey_box = toHex L (publicKey A),
                            signature_box = toBase64 L s \<rparr>)) = Inl e"
    by (simp add: a)
qed

lemma decryptMessage_box_try_decode:
  "decryptMessage_box_try L env K =
     try_bind (decode_envelope L env) (\<lambda>(ct, n, pk, sg).
     try_bind (verify_box L ct sg pk) (\<lambda>ok.
        if \<not> ok then Inr (Failure ''Invalid signature'')
        else
          try_bind (deriveSharedSecret L (privateKey K) pk) (\<lambda>sharedSecret.
          try_bind (chacha20_open L (subarray sharedSecret 0 32) (subarray n 0 12)
                      (subarray ct 0 (int (length ct) - 16))
                      (subarray ct (int (length ct) - 16) (int (length ct)))) (\<lambda>decrypted.
             Inr (Success (toUtf8 L decrypted))))))"
  by (simp add: decode_envelope_def decryptMessage_box_try_def try_bind_assoc Let_def
        cong: if_cong)

lemma decryptMessage_box_fails: "\<exists>e. decryptMessage_box L env K = Failure e"
proof -
  have "\<exists>e. decryptMessage_box_try L env K = Inl e"
    unfolding decryptMessage_box_try_decode
  proof (rule try_bind_throws)
    fix a :: "buffer \<times> buffer \<times> buffer \<times> buffer"
    obtain ct n pk sg where a: "a = (ct, n, pk, sg)" by (cases a)
    from verify_box_throws [of L ct sg pk] obtain e where "verify_box L ct sg pk = Inl e" ..
    then show "\<exists>e. (case a of (ct, n, pk, sg) \<Rightarrow>
        try_bind (verify_box L ct sg pk) (\<lambda>ok.
          if \<not> ok then Inr (Failure ''Invalid signature'')
          else
            try_bind (deriveSharedSecret L (privateKey K) pk) (\<lambda>sharedSecret.
            try_bind (chacha20_open L (subarray sharedSecret 0 32) (subarray n 0 12)
                        (subarray ct 0 (int (length ct) - 16))
                        (subarray ct (int (length ct) - 16) (int (length ct)))) (\<lambda>decrypted.
               Inr (Success (toUtf8 L decrypted)))))) = Inl e"
      by (simp add: a)
  qed
  then show ?thesis by (auto simp: decryptMessage_box_def)
qed

text \<open>
  On an envelope whose fields decode and whose sender key is imported, the failure is
  that of \<open>createVerify(null)\<close>, whatever the signature; the key agreement and the cipher
  are not reached.
\<close>

lemma decryptMessage_box_decoded:
  assumes "decode_envelope L env = Inr (ct, n, pk, sg)" and "createPublicKey L pk = Inr key"
  shows "decryptMessage_box (L\<lparr>chacha20_open := f, x25519 := g\<rparr>) env K =
           Failure (ERR_INVALID_ARG_TYPE ''algorithm'')"
proof -
  let ?L = "L\<lparr>chacha20_open := f, x25519 := g\<rparr>"
  have d: "decode_envelope ?L env = Inr (ct, n, pk, sg)"
    using assms(1) by (simp add: decode_envelope_codec)
  have "createPublicKey ?L pk = Inr key" using assms(2) by simp
  then have v: "verify_box ?L ct sg pk = Inl (ERR_INVALID_ARG_TYPE ''algorithm'')"
    by (rule verify_box_imported)
  show ?thesis
    by (simp add: decryptMessage_box_def decryptMessage_box_try_decode d v)
qed

lemma not_invalid_signature: "ERR_INVALID_ARG_TYPE ''algorithm'' \<noteq> ''Invalid signature''"
  by (simp add: ERR_INVALID_ARG_TYPE_def)








subsection \<open>Signature\<close>

lemma encryptMessage_Inr:
  assumes "encryptMessage L P A R = Inr m"
  shows "\<exists>c t s. chacha20_seal L (keyMaterial L (publicKey A) R) (randomBytes L 12) (utf8encode L P) = Inr (c, t) \<and>
           cryptoSign L ((c @ t) @ randomBytes L 12) (privateKey A) = Inr s \<and>
           m = \<lparr> ciphertext = toBase64 L (c @ t), nonce = toBase64 L (randomBytes L 12),
                 senderPubKey = toHex L (publicKey A), signature = toBase64 L s,
                 ephemeralPubKey = [] \<rparr>"
proof (cases "chacha20_seal L (keyMaterial L (publicKey A) R) (randomBytes L 12) (utf8encode L P)")
  case (Inl e)
  with assms show ?thesis by (simp add: encryptMessage_def Let_def)
next
  case (Inr ct)
  obtain c t where ct: "ct = (c, t)" by (cases ct)
  show ?thesis
  proof (cases "cryptoSign L ((c @ t) @ randomBytes L 12) (privateKey A)")
    case (Inl e)
    with assms Inr ct show ?thesis by (simp add: encryptMessage_def Let_def)
  next
    case s: (Inr s)
    with assms Inr ct show ?thesis by (auto simp: encryptMessage_def Let_def)
  qed
qed


lemma decrypt_bad_signature:
  assumes "decode_envelope L env = Inr (ct, n, pk, sg)" and "cryptoVerify L (ct @ n) sg pk = Inr False"
  shows "decryptMessage (L\<lparr>chacha20_open := f, x25519 := g\<rparr>) env K = Failure ''Invalid signature''"
proof -
  have d: "decode_envelope (L\<lparr>chacha20_open := f, x25519 := g\<rparr>) env = Inr (ct, n, pk, sg)"
    using assms(1) by (simp add: decode_envelope_codec)
  show ?thesis
    using decryptMessage_try_decoded [OF d, of K] assms(2) by (simp add: decryptMessage_def)
qed

lemma forged_decoded:
  "decode_envelope small_node forged = Inr (bytes_of ''x'', bytes_of ''y'', bytes_of ''A2'', bytes_of ''bad'')"
  by (simp add: decode_envelope_def forged_def small_node_def)

lemma forged_rejected:
  "cryptoVerify small_node (bytes_of ''x'' @ bytes_of ''y'') (bytes_of ''bad'') (bytes_of ''A2'') = Inr False"
  by code_simp

lemma forged_key: "createPublicKey small_node (bytes_of ''A2'') = Inr (bytes_of ''A2'')"
  by (simp add: small_node_def)

text \<open>
  Claim C2 holds of the v1 module and fails on \<open>src/relay/encryption.ts\<close>. In the v1
  module the signature of an envelope is the sender's signature over ciphertext followed
  by nonce, and \<open>decryptMessage\<close> verifies it over the same bytes: a signature that does
  not verify gives the failure \<open>Invalid signature\<close> whatever the cipher would return,
  which is not reached. In \<open>src/relay/encryption.ts\<close> \<open>sign\<close> and \<open>verify\<close> throw:
  \<open>encryptMessage\<close> returns no envelope, and \<open>decryptMessage\<close> fails on every envelope; on
  one whose fields decode and whose sender key is imported it fails with the error of
  \<open>createVerify(null)\<close>, whatever its signature, and not with \<open>Invalid signature\<close>.
\<close>

theorem signature_covers_and_guards:
  "(encryptMessage L P A R = Inr m \<longrightarrow>
      (\<exists>c s. ciphertext m = toBase64 L c \<and> nonce m = toBase64 L (randomBytes L 12) \<and>
             cryptoSign L (c @ randomBytes L 12) (privateKey A) = Inr s \<and>
             signature m = toBase64 L s)) \<and>
   (decode_envelope L env = Inr (ct, n, pk, sg) \<and> cryptoVerify L (ct @ n) sg pk = Inr False \<longrightarrow>
      decryptMessage (L\<lparr>chacha20_open := f, x25519 := g\<rparr>) env K = Failure ''Invalid signature'') \<and>
   (\<exists>e. encryptMessage_box L P A R = Inl e) \<and>
   (\<exists>e. decryptMessage_box L env K = Failure e) \<and>
   (decode_envelope L env = Inr (ct, n, pk, sg) \<and> createPublicKey L pk = Inr key \<longrightarrow>
      decryptMessage_box (L\<lparr>chacha20_open := f, x25519 := g\<rparr>) env K =
        Failure (ERR_INVALID_ARG_TYPE ''algorithm'') \<and>
      ERR_INVALID_ARG_TYPE ''algorithm'' \<noteq> ''Invalid signature'')"
proof (intro conjI impI)
  assume "encryptMessage L P A R = Inr m"
  from encryptMessage_Inr [OF this]
  show "\<exists>c s. ciphertext m = toBase64 L c \<and> nonce m = toBase64 L (randomBytes L 12) \<and>
             cryptoSign L (c @ randomBytes L 12) (privateKey A) = Inr s \<and>
             signature m = toBase64 L s"
    by auto
next
  assume "decode_envelope L env = Inr (ct, n, pk, sg) \<and> cryptoVerify L (ct @ n) sg pk = Inr False"
  then show "decryptMessage (L\<lparr>chacha20_open := f, x25519 := g\<rparr>) env K = Failure ''Invalid signature''"
    using decrypt_bad_signature by blast
next
  show "\<exists>e. encryptMessage_box L P A R = Inl e" by (rule encryptMessage_box_throws)
next
  show "\<exists>e. decryptMessage_box L env K = Failure e" by (rule decryptMessage_box_fails)
next
  assume "decode_envelope L env = Inr (ct, n, pk, sg) \<and> createPublicKey L pk = Inr key"
  then show "decryptMessage_box (L\<lparr>chacha20_open := f, x25519 := g\<rparr>) env K =
        Failure (ERR_INVALID_ARG_TYPE ''algorithm'')"
    using decryptMessage_box_decoded by blast
next
  show "ERR_INVALID_ARG_TYPE ''algorithm'' \<noteq> ''Invalid signature''" by (rule not_invalid_signature)
qed

theorem signature_covers_and_guards_witness:
  "(\<exists>m. encryptMessage small_node ''hi'' alice (publicKey bob) = Inr m \<and>
        (\<exists>c s. ciphertext m = toBase64 small_node c \<and>
               cryptoSign small_node (c @ randomBytes small_node 12) (privateKey alice) = Inr s \<and>
               signature m = toBase64 small_node s)) \<and>
   decode_envelope small_node forged = Inr (bytes_of ''x'', bytes_of ''y'', bytes_of ''A2'', bytes_of ''bad'') \<and>
   cryptoVerify small_node (bytes_of ''x'' @ bytes_of ''y'') (bytes_of ''bad'') (bytes_of ''A2'') = Inr False \<and>
   decryptMessage small_node forged bob = Failure ''Invalid signature'' \<and>
   createPublicKey small_node (bytes_of ''A2'') = Inr (bytes_of ''A2'') \<and>
   decryptMessage_box small_node forged bob = Failure (ERR_INVALID_ARG_TYPE ''algorithm'') \<and>
   (\<exists>e. encryptMessage_box small_node ''hi'' alice (publicKey bob) = Inl e)"
proof -
  from encrypt_then_decrypt [OF small_node_ok alice_valid small_utf8, of "''hi''" "publicKey bob"]
  obtain m where m: "encryptMessage small_node ''hi'' alice (publicKey bob) = Inr m" by blast
  note th = signature_covers_and_guards [where L = small_node and P = "''hi''" and A = alice
      and R = "publicKey bob" and m = m and env = forged and ct = "bytes_of ''x''"
      and n = "bytes_of ''y''" and pk = "bytes_of ''A2''" and sg = "bytes_of ''bad''"
      and f = "chacha20_open small_node" and g = "x25519 small_node" and K = bob
      and key = "bytes_of ''A2''", unfolded small_node_same]
  show ?thesis
    using th m forged_decoded forged_rejected forged_key by blast
qed

subsection \<open>Nonce\<close>





section \<open>Properties of the relay link\<close>

lemma js_index_nonnull: "msg \<noteq> JNull \<Longrightarrow> js_index msg i = Inr (js_index_opt msg i)"
  by (cases msg) (simp_all add: js_index_opt_def)

lemma publish_onMessage_listening:
  assumes "listening p"
  shows "publish_onMessage L p d =
           (case acknowledgement L (event_id p) d of None \<Rightarrow> p | Some v \<Rightarrow> settle (cleanup p) v)"
proof (cases d)
  case Binary
  with assms show ?thesis by (simp add: publish_onMessage_def acknowledgement_def)
next
  case (Text s)
  show ?thesis
  proof (cases "JSON_parse L s")
    case (Inl e)
    with Text assms show ?thesis
      by (simp add: publish_onMessage_def publish_onMessage_try_def acknowledgement_def)
  next
    case (Inr msg)
    show ?thesis
    proof (cases "msg = JNull")
      case True
      with Text Inr assms show ?thesis
        by (simp add: publish_onMessage_def publish_onMessage_try_def acknowledgement_def)
    next
      case False
      with Text Inr assms show ?thesis
        by (simp add: publish_onMessage_def publish_onMessage_try_def acknowledgement_def
              js_index_nonnull)
    qed
  qed
qed

lemma publish_onMessage_deaf: "\<not> listening p \<Longrightarrow> publish_onMessage L p d = p"
  by (simp add: publish_onMessage_def)

lemma foldl_deaf: "\<not> listening p \<Longrightarrow> foldl (publish_onMessage L) p ds = p"
  by (induction ds) (simp_all add: publish_onMessage_deaf)

lemma settled_frames:
  assumes "listening p" and "settled p = None" and "timer p = Some ms" and "event_id p = eid"
  shows "settled (publish_timeout (foldl (publish_onMessage L) p ds)) =
           Some (case first_acknowledgement L eid ds of None \<Rightarrow> Inl ''Publish timeout'' | Some v \<Rightarrow> v)"
  using assms
proof (induction ds arbitrary: p)
  case Nil
  then show ?case by (simp add: publish_timeout_def settle_def cleanup_def)
next
  case (Cons d ds)
  show ?case
  proof (cases "acknowledgement L eid d")
    case None
    then have "publish_onMessage L p d = p"
      using Cons.prems by (simp add: publish_onMessage_listening)
    with None Cons show ?thesis by simp
  next
    case (Some v)
    let ?q = "settle (cleanup p) v"
    have q: "publish_onMessage L p d = ?q"
      using Cons.prems Some by (simp add: publish_onMessage_listening)
    have deaf: "\<not> listening ?q" and st: "settled ?q = Some v" and tm: "timer ?q = None"
      using Cons.prems by (simp_all add: settle_def cleanup_def)
    have "foldl (publish_onMessage L) ?q ds = ?q" by (rule foldl_deaf [OF deaf])
    then show ?thesis
      using q Some st tm by (simp add: publish_timeout_def)
  qed
qed

lemma settled_deaf:
  assumes "\<not> listening p" and "settled p = None" and "timer p = Some ms"
  shows "settled (publish_timeout (foldl (publish_onMessage L) p ds)) = Some (Inl ''Publish timeout'')"
  using assms by (simp add: foldl_deaf publish_timeout_def settle_def cleanup_def)

text \<open>
  Claim C7 fails on the code between \<open>disconnect()\<close> and the \<open>close\<close> event. On a client
  whose \<open>connected\<close> flag is unset, \<open>publish\<close> rejects at once with \<open>Not connected to relay\<close>
  and hands nothing to the socket. On a client whose flag is set and which holds its
  socket it sends \<open>["EVENT", event]\<close> and arms a timer of 10000 ms; the promise settles by
  the first frame that is an \<open>OK\<close> for the id of the event (resolved when its third
  element is truthy, rejected with its fourth element or \<open>Publish failed\<close> otherwise), and
  is rejected with \<open>Publish timeout\<close> when the timer fires before any such frame. On a
  client whose flag is set and whose socket is dropped, it does not reject at once, sends
  nothing and registers no listener: whatever frames arrive, the promise is rejected with
  \<open>Publish timeout\<close> when the timer fires.
\<close>

theorem publish_outcome:
  "(\<not> connected C \<longrightarrow>
      fst (publish C event) = C \<and>
      settled (snd (publish C event)) = Some (Inl ''Not connected to relay'') \<and>
      settled (publish_run L C event frames) = Some (Inl ''Not connected to relay'')) \<and>
   (connected C \<and> ws C \<longrightarrow>
      sent (fst (publish C event)) = sent C @ [JArr [JStr ''EVENT'', NostrEvent_object event]] \<and>
      settled (snd (publish C event)) = None \<and>
      timer (snd (publish C event)) = Some 10000 \<and>
      settled (publish_run L C event frames) =
        Some (case first_acknowledgement L (ev_id event) frames of
                None \<Rightarrow> Inl ''Publish timeout'' | Some v \<Rightarrow> v)) \<and>
   (connected C \<and> \<not> ws C \<longrightarrow>
      fst (publish C event) = C \<and>
      settled (snd (publish C event)) = None \<and>
      timer (snd (publish C event)) = Some 10000 \<and>
      \<not> listening (snd (publish C event)) \<and>
      settled (publish_run L C event frames) = Some (Inl ''Publish timeout''))"
proof (intro conjI impI)
  assume n: "\<not> connected C"
  show "fst (publish C event) = C" using n by (simp add: publish_def)
  show s: "settled (snd (publish C event)) = Some (Inl ''Not connected to relay'')"
    using n by (simp add: publish_def)
  have "\<not> listening (snd (publish C event))" "timer (snd (publish C event)) = None"
    using n by (simp_all add: publish_def)
  then show "settled (publish_run L C event frames) = Some (Inl ''Not connected to relay'')"
    using s by (simp add: publish_run_def foldl_deaf publish_timeout_def)
next
  assume c: "connected C \<and> ws C"
  show "sent (fst (publish C event)) = sent C @ [JArr [JStr ''EVENT'', NostrEvent_object event]]"
    using c by (simp add: publish_def client_send_def)
  show "settled (snd (publish C event)) = None" using c by (simp add: publish_def)
  show "timer (snd (publish C event)) = Some 10000" using c by (simp add: publish_def)
  have "listening (snd (publish C event))" "settled (snd (publish C event)) = None"
    "timer (snd (publish C event)) = Some 10000" "event_id (snd (publish C event)) = ev_id event"
    using c by (simp_all add: publish_def)
  then show "settled (publish_run L C event frames) =
        Some (case first_acknowledgement L (ev_id event) frames of
                None \<Rightarrow> Inl ''Publish timeout'' | Some v \<Rightarrow> v)"
    unfolding publish_run_def by (rule settled_frames)
next
  assume c: "connected C \<and> \<not> ws C"
  show "fst (publish C event) = C" using c by (simp add: publish_def client_send_def)
  show s: "settled (snd (publish C event)) = None" using c by (simp add: publish_def)
  show t: "timer (snd (publish C event)) = Some 10000" using c by (simp add: publish_def)
  show l: "\<not> listening (snd (publish C event))" using c by (simp add: publish_def)
  show "settled (publish_run L C event frames) = Some (Inl ''Publish timeout'')"
    unfolding publish_run_def using l s t by (rule settled_deaf)
qed

lemma arrivals_ack:
  "first_acknowledgement ack_node ''e1'' arrivals = Some (Inl ''blocked'')"
  "first_acknowledgement ack_node ''e1'' [Text ''notice''] = None"
  "first_acknowledgement ack_node ''e1'' [Text ''ok-late''] = Some (Inr ())"
  by code_simp+

lemma wire_id: "ev_id (wire c) = ''e1''"
  by (simp add: wire_def)

lemma closing:
  "disconnect link_up = \<lparr>ws = False, connected = True, sent = []\<rparr>"
  "connected (disconnect link_up) \<and> \<not> ws (disconnect link_up)"
  "\<not> connected (onClose (disconnect link_up))"
  by (simp_all add: disconnect_def onClose_def link_up_def)

theorem publish_outcome_witness:
  "\<not> connected link_down \<and>
   fst (publish link_down (wire ''E-PING'')) = link_down \<and>
   settled (publish_run ack_node link_down (wire ''E-PING'') arrivals) = Some (Inl ''Not connected to relay'') \<and>
   connected link_up \<and> ws link_up \<and>
   sent (fst (publish link_up (wire ''E-PING''))) = [JArr [JStr ''EVENT'', NostrEvent_object (wire ''E-PING'')]] \<and>
   timer (snd (publish link_up (wire ''E-PING''))) = Some 10000 \<and>
   settled (publish_run ack_node link_up (wire ''E-PING'') arrivals) = Some (Inl ''blocked'') \<and>
   settled (publish_run ack_node link_up (wire ''E-PING'') [Text ''notice'']) = Some (Inl ''Publish timeout'') \<and>
   settled (publish_run ack_node link_up (wire ''E-PING'') [Text ''ok-late'']) = Some (Inr ()) \<and>
   connected (disconnect link_up) \<and> \<not> ws (disconnect link_up) \<and>
   fst (publish (disconnect link_up) (wire ''E-PING'')) = disconnect link_up \<and>
   sent (disconnect link_up) = [] \<and>
   settled (snd (publish (disconnect link_up) (wire ''E-PING''))) = None \<and>
   first_acknowledgement ack_node ''e1'' [Text ''ok-late''] = Some (Inr ()) \<and>
   settled (publish_run ack_node (disconnect link_up) (wire ''E-PING'') [Text ''ok-late'']) =
     Some (Inl ''Publish timeout'') \<and>
   \<not> connected (onClose (disconnect link_up)) \<and>
   settled (snd (publish (onClose (disconnect link_up)) (wire ''E-PING''))) =
     Some (Inl ''Not connected to relay'')"
proof -
  have d: "\<not> connected link_down" by (simp add: link_down_def)
  have u: "connected link_up \<and> ws link_up" "sent link_up = []" by (simp_all add: link_up_def)
  note a = publish_outcome [of link_down "wire ''E-PING''" ack_node arrivals]
  note b = publish_outcome [of link_up "wire ''E-PING''" ack_node arrivals,
      unfolded wire_id arrivals_ack option.case]
  note c = publish_outcome [of link_up "wire ''E-PING''" ack_node "[Text ''notice'']",
      unfolded wire_id arrivals_ack option.case]
  note e = publish_outcome [of link_up "wire ''E-PING''" ack_node "[Text ''ok-late'']",
      unfolded wire_id arrivals_ack option.case]
  note g = publish_outcome [of "disconnect link_up" "wire ''E-PING''" ack_node "[Text ''ok-late'']"]
  note h = publish_outcome [of "onClose (disconnect link_up)" "wire ''E-PING''" ack_node "[]"]
  have s: "sent link_up @ [JArr [JStr ''EVENT'', NostrEvent_object (wire ''E-PING'')]] =
           [JArr [JStr ''EVENT'', NostrEvent_object (wire ''E-PING'')]]"
    using u(2) by simp
  have k: "sent (disconnect link_up) = []" by (simp add: closing(1))
  have first: "\<not> connected link_down \<and>
     fst (publish link_down (wire ''E-PING'')) = link_down \<and>
     settled (publish_run ack_node link_down (wire ''E-PING'') arrivals) = Some (Inl ''Not connected to relay'')"
    using a d by blast
  have second: "connected link_up \<and> ws link_up \<and>
     sent (fst (publish link_up (wire ''E-PING''))) = [JArr [JStr ''EVENT'', NostrEvent_object (wire ''E-PING'')]] \<and>
     timer (snd (publish link_up (wire ''E-PING''))) = Some 10000 \<and>
     settled (publish_run ack_node link_up (wire ''E-PING'') arrivals) = Some (Inl ''blocked'') \<and>
     settled (publish_run ack_node link_up (wire ''E-PING'') [Text ''notice'']) = Some (Inl ''Publish timeout'') \<and>
     settled (publish_run ack_node link_up (wire ''E-PING'') [Text ''ok-late'']) = Some (Inr ())"
    using b c e u(1) unfolding s by blast
  have third: "connected (disconnect link_up) \<and> \<not> ws (disconnect link_up) \<and>
     fst (publish (disconnect link_up) (wire ''E-PING'')) = disconnect link_up \<and>
     sent (disconnect link_up) = [] \<and>
     settled (snd (publish (disconnect link_up) (wire ''E-PING''))) = None \<and>
     first_acknowledgement ack_node ''e1'' [Text ''ok-late''] = Some (Inr ()) \<and>
     settled (publish_run ack_node (disconnect link_up) (wire ''E-PING'') [Text ''ok-late'']) =
       Some (Inl ''Publish timeout'')"
    using g closing(2) k arrivals_ack(3) by blast
  have fourth: "\<not> connected (onClose (disconnect link_up)) \<and>
     settled (snd (publish (onClose (disconnect link_up)) (wire ''E-PING''))) =
       Some (Inl ''Not connected to relay'')"
    using h closing(3) by blast
  show ?thesis using first second third fourth by blast
qed

section \<open>Properties of the transport\<close>

subsection \<open>Reading JavaScript values\<close>

lemma js_get_Inr: "js_get v n = Inr x \<Longrightarrow> js_get_opt v n = x"
  by (cases "(v, n)" rule: js_get.cases) auto

lemma js_get_nonnull: "truthy (js_get_opt v n) \<Longrightarrow> js_get v m = Inr (js_get_opt v m)"
  by (cases "(v, n)" rule: js_get.cases) auto

lemma find_kind_Some:
  "find_kind ps k = Inr (Some p) \<Longrightarrow> p \<in> set ps \<and> js_get_opt (Some p) ''kind'' = Some (JStr k)"
proof (induction ps)
  case Nil
  then show ?case by simp
next
  case (Cons q qs)
  show ?case
  proof (cases "js_get (Some q) ''kind''")
    case (Inl e)
    with Cons.prems show ?thesis by simp
  next
    case (Inr v)
    show ?thesis
    proof (cases "v = Some (JStr k)")
      case True
      with Inr Cons.prems js_get_Inr [OF Inr] show ?thesis by simp
    next
      case False
      with Inr Cons.prems Cons.IH show ?thesis by simp
    qed
  qed
qed

lemma js_find_array: "js_find v k = Inr x \<Longrightarrow> \<exists>ps. v = Some (JArr ps) \<and> find_kind ps k = Inr x"
  by (cases "(v, k)" rule: js_find.cases) auto

lemma text_found:
  assumes m: "truthy message"
    and f: "js_find (js_get_opt message ''parts'') ''text'' = Inr textPart"
    and t: "truthy (js_get_opt textPart ''text'')"
  shows "has_text message"
proof -
  from js_find_array [OF f] obtain ps where
    ps: "js_get_opt message ''parts'' = Some (JArr ps)" and fk: "find_kind ps ''text'' = Inr textPart"
    by blast
  from t obtain p where p: "textPart = Some p" by (cases textPart) auto
  from find_kind_Some [OF fk [unfolded p]] t p
  have "p \<in> set ps \<and> js_get_opt (Some p) ''kind'' = Some (JStr ''text'') \<and> truthy (js_get_opt (Some p) ''text'')"
    by simp
  then have "list_ex (\<lambda>p. js_get_opt (Some p) ''kind'' = Some (JStr ''text'') \<and>
                       truthy (js_get_opt (Some p) ''text'')) ps"
    unfolding list_ex_iff by blast
  with m ps show ?thesis by (simp add: has_text_def)
qed

lemma response_json_id: "js_get_opt (Some (response_json req tid rtext rdata)) ''id'' = js_get_opt (Some req) ''id''"
  by (cases "js_get_opt (Some req) ''id''") (simp_all add: response_json_def Let_def object_def)

lemma response_json_result:
  "js_get_opt (Some req) ''id'' = Some (JStr k) \<Longrightarrow>
   handleResponse_result L (response_json req tid rtext None) =
     Inr \<lparr>success = True, taskId = Some (JStr tid), response = Some (JStr rtext), error = None\<rparr>"
  by (simp add: handleResponse_result_def response_json_def Let_def object_def)

subsection \<open>The scripted runtime and its peers\<close>

lemma encryptMessage_scripted:
  "encryptMessage (scripted tb) P A R = encryptMessage small_node P A R"
  by (simp add: scripted_def encryptMessage_def keyMaterial_def key_context_def Let_def)

lemma scripted_ok: "runtime_ok (scripted tb)"
  using small_node_ok by (simp add: runtime_ok_def scripted_def)

lemma scripted_valid: "valid_keypair (scripted tb) K = valid_keypair small_node K"
  by (simp add: valid_keypair_def scripted_def)

lemma scripted_utf8: "toUtf8 (scripted tb) (utf8encode (scripted tb) P) = P"
  by (simp add: scripted_def small_node_def chars_of_bytes_of)

text \<open>What a sealed envelope is, on the scripted runtime.\<close>

lemma sealed_envelope:
  assumes "valid_keypair small_node A"
  shows "\<exists>m. encryptMessage (scripted tb) P A R = Inr m \<and> sealed P A R = EncryptedMessage_object m \<and>
             senderPubKey m = chars_of (publicKey A) \<and>
             (\<forall>B. publicKey B = R \<longrightarrow> decryptMessage (scripted tb) (sealed P A R) B = Success P)"
proof -
  have v: "valid_keypair (scripted tb) A" using assms by (simp add: scripted_valid)
  from encrypt_then_decrypt [where L = "scripted tb" and A = A and P = P and R = R, OF scripted_ok v scripted_utf8]
  obtain m where m: "encryptMessage (scripted tb) P A R = Inr m"
    and s: "senderPubKey m = toHex (scripted tb) (publicKey A)"
    and d: "\<forall>B. publicKey B = R \<longrightarrow> decryptMessage (scripted tb) (EncryptedMessage_object m) B = Success P"
    by blast
  have e: "sealed P A R = EncryptedMessage_object m"
    using m by (simp add: sealed_def encryptMessage_scripted)
  have s': "senderPubKey m = chars_of (publicKey A)"
    using s by (simp add: scripted_def small_node_def)
  show ?thesis using m e s' d by simp
qed

lemma stringify_ack: "JSON_stringify relay_node ack = ''ACK''"
  by (simp add: relay_node_def scripted_def script_def ack_def ping_def response_json_def
        send_request_def object_def Let_def)

lemma parse_script:
  "JSON_parse relay_node ''ACK'' = Inr ack"
  "JSON_parse relay_node ''PING'' = Inr ping"
  "JSON_parse relay_node ''PONG'' = Inr pong"
  "JSON_parse relay_node ''SILENT'' = Inr silent"
  "JSON_parse relay_node ''E-ACK'' = Inr (sealed ''ACK'' bob (publicKey alice))"
  "JSON_parse relay_node ''E-PING'' = Inr (sealed ''PING'' alice (publicKey bob))"
  "JSON_parse relay_node ''E-PONG'' = Inr (sealed ''PONG'' bob (publicKey alice))"
  "JSON_parse relay_node ''E-SILENT'' = Inr (sealed ''SILENT'' alice (publicKey bob))"
  by (simp_all add: relay_node_def scripted_def script_def)

lemma stringify_sealed_ack:
  "JSON_stringify relay_node (sealed ''ACK'' bob (publicKey alice)) = ''E-ACK''"
proof -
  from sealed_envelope [OF bob_valid, of script "''ACK''" "publicKey alice"]
  obtain m where e: "sealed ''ACK'' bob (publicKey alice) = EncryptedMessage_object m" by blast
  show ?thesis
    unfolding e
    by (simp add: relay_node_def scripted_def script_def e EncryptedMessage_object_def
          ack_def ping_def response_json_def send_request_def object_def Let_def pong_def silent_def)
qed

lemma relay_node_ok: "runtime_ok relay_node"
  by (simp add: relay_node_def scripted_ok)

lemma relay_node_schnorr: "schnorr_ok relay_node"
  by (simp add: schnorr_ok_def relay_node_def scripted_def small_node_def)

lemma bob_valid_relay: "valid_keypair relay_node bob"
  by (simp add: relay_node_def scripted_valid bob_valid)

lemma relay_hex: "hexdecode relay_node (chars_of b) = b"
  by (simp add: relay_node_def scripted_def small_node_def bytes_of_chars_of)

lemma relay_utf8: "toUtf8 relay_node (utf8encode relay_node P) = P"
  by (simp add: relay_node_def scripted_utf8)

lemma relay_String: "js_String relay_node v = plain_String v"
  by (simp add: relay_node_def scripted_def small_node_def)

lemma wire_content: "ev_content (wire c) = c"
  by (simp add: wire_def)

lemma failing_keypair: "keypair failing = bob" "keypair serving = bob" "keypair waiting = alice" "keypair idle = alice"
  by (simp_all add: failing_def serving_def waiting_def idle_def)

lemma e_ping:
  "decryptMessage relay_node (sealed ''PING'' alice (publicKey bob)) bob = Success ''PING''"
  "js_get_opt (Some (sealed ''PING'' alice (publicKey bob))) ''senderPubKey'' = Some (JStr (chars_of (publicKey alice)))"
  using sealed_envelope [OF alice_valid, of script "''PING''" "publicKey bob"]
  by (auto simp: relay_node_def EncryptedMessage_object_def)

lemma e_pong:
  "decryptMessage relay_node (sealed ''PONG'' bob (publicKey alice)) alice = Success ''PONG''"
  using sealed_envelope [OF bob_valid, of script "''PONG''" "publicKey alice"]
  by (auto simp: relay_node_def)

lemma e_silent:
  "decryptMessage relay_node (sealed ''SILENT'' alice (publicKey bob)) bob = Success ''SILENT''"
  using sealed_envelope [OF alice_valid, of script "''SILENT''" "publicKey bob"]
  by (auto simp: relay_node_def)

lemma ping_parts:
  "req_message ping = Some (JObj [(''role'', JStr ''user''),
      (''parts'', JArr [JObj [(''kind'', JStr ''text''), (''text'', JStr ''ping'')]])])"
  by (simp add: req_message_def ping_def send_request_def object_def Let_def hello_def)

lemma ping_fields:
  "js_get_opt (Some ping) ''result'' = None"
  "js_get_opt (Some ping) ''error'' = None"
  "js_get_opt (Some ping) ''method'' = Some (JStr ''message/send'')"
  "js_get_opt (Some ping) ''id'' = Some (JStr ''msg-1'')"
  by (simp_all add: ping_def send_request_def object_def Let_def hello_def)

lemma ping_find:
  "js_find (js_get_opt (req_message ping) ''parts'') ''text'' = Inr ping_text"
  "js_find (js_get_opt (req_message ping) ''parts'') ''data'' = Inr None"
  by (simp_all add: ping_parts ping_text_def)

lemma ping_sender: "req_sender ping spk = \<lparr>sender_name = Some (JStr ''alice'')\<rparr>"
  by (simp add: req_sender_def ping_def send_request_def object_def Let_def hello_def waiting_def or_string_def)

lemma ping_shown: "js_substring (js_get_opt ping_text ''text'') 50 = Inr ''ping''"
  by (simp add: ping_text_def)

lemma ack_unfold: "response_json ping ''task-1'' ''Message received'' None = ack"
  by (simp add: ack_def)

lemma failing_throws: "onMessage failing im si = Inl ''boom''"
  by (simp add: failing_def)

lemma failing_connected: "connected_clients failing = [0, 2]"
  by (simp add: connected_clients_def failing_def serving_def upt_rec)

lemma failing_effects: "effects failing = []"
  by (simp add: failing_def serving_def)

lemma serving_connected: "connected_clients (serving\<lparr>effects := es\<rparr>) = [0, 2]"
  by (simp add: connected_clients_def serving_def upt_rec)

lemma serving_answers:
  "onMessage (serving\<lparr>effects := es\<rparr>) im si = Inr \<lparr>resp_text = ''pong'', resp_data = None\<rparr>"
  by (simp add: serving_def)

lemma serving_keypair: "keypair (serving\<lparr>effects := es\<rparr>) = bob"
  by (simp add: serving_def)

lemma serving_nil: "serving\<lparr>effects := []\<rparr> = serving"
  by (simp add: serving_def)

lemma pong_id: "js_get (Some pong) ''id'' = Inr (Some (JStr ''msg-1''))"
  by (simp add: pong_def)

lemma waiting_pending: "pendingRequests waiting ''msg-1'' = Some \<lparr>resolve = 0, timeout = 0\<rparr>"
  by (simp add: waiting_def)

lemma pong_result:
  "handleResponse_result small_node pong =
     Inr \<lparr>success = True, taskId = Some (JStr ''task-1''), response = Some (JStr ''pong''),
          error = None\<rparr>"
  by (simp add: handleResponse_result_def pong_def Let_def)

lemma offline_none: "\<not> list_ex (\<lambda>c. c) (clients offline)"
  by (simp add: offline_def)

subsection \<open>Responses resolve at most once\<close>

lemma handleResponse_effects:
  assumes "js_get (Some r) ''id'' = Inr (Some (JStr k))" and "pendingRequests T k = Some pending"
  shows "effects (fst (handleResponse L T r)) =
           effects T @ ClearTimeout (timeout pending) # PendingDelete (Some (JStr k)) #
             (case handleResponse_result L r of
                Inl e \<Rightarrow> [] | Inr res \<Rightarrow> [Resolve (resolve pending) res])"
  using assms
  by (simp add: handleResponse_def Let_def resolve_promise_def pending_delete_def
        clearTimeout_def emit_def split: sum.splits)

lemma handleResponse_removed:
  assumes "js_get (Some r) ''id'' = Inr (Some (JStr k))" and "pendingRequests T k = Some pending"
  shows "pendingRequests (fst (handleResponse L T r)) k = None"
    and "timers (fst (handleResponse L T r)) (timeout pending) = None"
  using assms
  by (simp_all add: handleResponse_def Let_def resolve_promise_def pending_delete_def
        clearTimeout_def emit_def split: sum.splits)

lemma handleResponse_absent:
  assumes "js_get (Some r) ''id'' = Inr (Some (JStr k))" and "pendingRequests T k = None"
  shows "handleResponse L T r = (T, None)"
  using assms by (simp add: handleResponse_def)

lemma request_timeout_cleared: "timers T t = None \<Longrightarrow> request_timeout L T t = T"
  by (simp add: request_timeout_def)

text \<open>
  Claim C3. When a response \<open>r\<close> carries the id \<open>k\<close> of a pending entry, \<open>handleResponse\<close>
  clears the timer of the entry and removes the entry, and only then calls its resolver
  (at most once: not at all when the result cannot be read). In the state it leaves, the
  entry is gone, a second response \<open>r2\<close> with the same id changes nothing, and neither
  does the deadline timer of the request.
\<close>

theorem handleResponse_at_most_once:
  assumes "js_get (Some r) ''id'' = Inr (Some (JStr k))" and "pendingRequests T k = Some pending"
  shows "pendingRequests (fst (handleResponse L T r)) k = None \<and>
         effects (fst (handleResponse L T r)) =
           effects T @ ClearTimeout (timeout pending) # PendingDelete (Some (JStr k)) #
             (case handleResponse_result L r of
                Inl e \<Rightarrow> [] | Inr res \<Rightarrow> [Resolve (resolve pending) res]) \<and>
         (js_get (Some r2) ''id'' = Inr (Some (JStr k)) \<longrightarrow>
            handleResponse L (fst (handleResponse L T r)) r2 = (fst (handleResponse L T r), None)) \<and>
         request_timeout L (fst (handleResponse L T r)) (timeout pending) =
           fst (handleResponse L T r)"
  using handleResponse_effects [OF assms] handleResponse_removed [OF assms]
    handleResponse_absent request_timeout_cleared by simp

theorem handleResponse_at_most_once_witness:
  "js_get (Some pong) ''id'' = Inr (Some (JStr ''msg-1'')) \<and>
   pendingRequests waiting ''msg-1'' = Some \<lparr>resolve = 0, timeout = 0\<rparr> \<and>
   pendingRequests (fst (handleResponse small_node waiting pong)) ''msg-1'' = None \<and>
   effects (fst (handleResponse small_node waiting pong)) =
     [ClearTimeout 0, PendingDelete (Some (JStr ''msg-1'')),
      Resolve 0 \<lparr>success = True, taskId = Some (JStr ''task-1''), response = Some (JStr ''pong''),
                 error = None\<rparr>] \<and>
   handleResponse small_node (fst (handleResponse small_node waiting pong)) pong =
     (fst (handleResponse small_node waiting pong), None) \<and>
   request_timeout small_node (fst (handleResponse small_node waiting pong)) 0 =
     fst (handleResponse small_node waiting pong)"
  using handleResponse_at_most_once [OF pong_id waiting_pending, of small_node pong]
    pong_id waiting_pending pong_result
  by (simp add: waiting_def)

subsection \<open>Sending with no relay connected\<close>

lemma publish_all_none:
  assumes "\<not> list_ex (\<lambda>c. c) (clients T)"
  shows "publish_all T event = T"
proof -
  from assms have none: "\<forall>c\<in>set (clients T). \<not> c" by (simp add: list_ex_iff)
  have "\<not> clients T ! i" if "i < length (clients T)" for i
    using none nth_mem [OF that] by blast
  then have "\<forall>i \<in> set [0..<length (clients T)]. \<not> clients T ! i" by simp
  then have "filter (\<lambda>i. clients T ! i) [0..<length (clients T)] = []"
    by (simp only: filter_False)
  then show ?thesis by (simp add: publish_all_def)
qed

lemma clients_pending_set: "clients (pending_set T k v) = clients T"
  by (simp add: pending_set_def emit_def)

lemma clients_setTimeout: "clients (setTimeout T t k p ms) = clients T"
  by (simp add: setTimeout_def emit_def)

lemma send_try_no_relays:
  assumes off: "\<not> list_ex (\<lambda>c. c) (clients T)"
    and ok: "snd (send_try L T message ms msgId now p t) = None"
  shows "send_try L T message ms msgId now p t = (rolled_back T ms msgId p t, None)"
proof (cases "encryptMessage L (JSON_stringify L (send_request T message msgId)) (keypair T)
                (hexdecode L (recipientPubKey message))")
  case (Inl e)
  with ok show ?thesis by (simp add: send_try_def Let_def)
next
  case enc: (Inr encrypted)
  show ?thesis
  proof (cases "createNostrEvent L now 4 (JSON_stringify L (EncryptedMessage_object encrypted))
                    [[JStr ''p'', JStr (recipientPubKey message)],
                     [JStr ''t'', JStr (recipientPubKey message)]]
                    (privateKey (keypair T))")
    case (Inl e)
    with ok enc show ?thesis by (simp add: send_try_def Let_def)
  next
    case (Inr event)
    have "publish_all (pending_set (setTimeout T t msgId p ms) msgId \<lparr>resolve = p, timeout = t\<rparr>) event
            = pending_set (setTimeout T t msgId p ms) msgId \<lparr>resolve = p, timeout = t\<rparr>"
      by (rule publish_all_none) (simp add: clients_pending_set clients_setTimeout off)
    with enc Inr off show ?thesis
      by (simp add: send_try_def Let_def rolled_back_def)
  qed
qed

lemma send_no_relays:
  assumes off: "\<not> list_ex (\<lambda>c. c) (clients T)"
    and ok: "snd (send_try L T message ms msgId now p t) = None"
  shows "send L T message ms msgId now p t = rolled_back T ms msgId p t"
  using send_try_no_relays [OF assms] by (simp add: send_def)

lemma rolled_back_effects:
  "effects (rolled_back T ms msgId p t) =
     effects T @ [SetTimeout t ms, PendingSet msgId, ClearTimeout t,
                  PendingDelete (Some (JStr msgId)), Resolve p no_relays]"
  by (simp add: rolled_back_def resolve_promise_def pending_delete_def pending_set_def
        clearTimeout_def setTimeout_def emit_def)

lemma rolled_back_pending:
  "pendingRequests (rolled_back T ms msgId p t) = (pendingRequests T)(msgId := None)"
  by (simp add: rolled_back_def resolve_promise_def pending_delete_def pending_set_def
        clearTimeout_def setTimeout_def emit_def)

lemma rolled_back_timers:
  "timers (rolled_back T ms msgId p t) = (timers T)(t := None)"
  by (simp add: rolled_back_def resolve_promise_def pending_delete_def pending_set_def
        clearTimeout_def setTimeout_def emit_def)

lemma rolled_back_promises:
  "promises T p = None \<Longrightarrow> promises (rolled_back T ms msgId p t) p = Some no_relays"
  by (simp add: rolled_back_def resolve_promise_def pending_delete_def pending_set_def
        clearTimeout_def setTimeout_def emit_def)

lemma createNostrEvent_succeeds:
  assumes ok: "schnorr_ok L"
  shows "\<exists>ev. createNostrEvent L now k c tg priv = Inr ev \<and> ev_content ev = c"
proof -
  from ok obtain pk where pk: "schnorr_getPublicKey L (deriveSecp256k1Key L priv) = Inr pk"
    unfolding schnorr_ok_def by blast
  let ?id = "toHex L (sha256 L (utf8encode L (JSON_stringify L
               (JArr [JNum 0, JStr (toHex L pk), JNum (now div 1000), JNum k, JArr (map JArr tg), JStr c]))))"
  from ok obtain s where s: "schnorr_sign L (hexdecode L ?id) (deriveSecp256k1Key L priv) = Inr s"
    unfolding schnorr_ok_def by blast
  show ?thesis using pk s by (simp add: createNostrEvent_def Let_def)
qed

lemma send_try_succeeds:
  assumes rt: "runtime_ok L" and sk: "schnorr_ok L" and vk: "valid_keypair L (keypair T)"
    and utf: "toUtf8 L (utf8encode L (JSON_stringify L (send_request T message msgId)))
                = JSON_stringify L (send_request T message msgId)"
  shows "snd (send_try L T message ms msgId now p t) = None"
proof -
  from encrypt_then_decrypt [where L = L and A = "keypair T"
      and P = "JSON_stringify L (send_request T message msgId)"
      and R = "hexdecode L (recipientPubKey message)", OF rt vk utf]
  obtain m where enc: "encryptMessage L (JSON_stringify L (send_request T message msgId)) (keypair T)
                         (hexdecode L (recipientPubKey message)) = Inr m"
    by blast
  from createNostrEvent_succeeds [OF sk]
  obtain ev where ev: "createNostrEvent L now 4 (JSON_stringify L (EncryptedMessage_object m))
                    [[JStr ''p'', JStr (recipientPubKey message)],
                     [JStr ''t'', JStr (recipientPubKey message)]]
                    (privateKey (keypair T)) = Inr ev"
    by blast
  show ?thesis using enc ev by (simp add: send_try_def Let_def)
qed

lemma offline_send: "snd (send_try relay_node offline hello 30000 ''msg-2'' 9000 1 1) = None"
proof (rule send_try_succeeds [OF relay_node_ok relay_node_schnorr])
  show "valid_keypair relay_node (keypair offline)"
    using alice_valid by (simp add: offline_def waiting_def relay_node_def scripted_valid)
  show "toUtf8 relay_node (utf8encode relay_node (JSON_stringify relay_node (send_request offline hello ''msg-2'')))
          = JSON_stringify relay_node (send_request offline hello ''msg-2'')"
    by (rule relay_utf8)
qed

text \<open>
  Claim C5, as the code has it. When no client is connected and nothing is thrown while
  the request is built, \<open>send\<close> arms the timer and registers the pending request, finds
  nothing to publish to, clears the timer, removes the entry again and resolves the promise
  with the failure \<open>No connected relays\<close>, all before it returns. No entry of the call
  is left: the table after the call is the table before it when the correlation id is
  fresh.
\<close>

theorem send_without_relays:
  assumes off: "\<not> list_ex (\<lambda>c. c) (clients T)"
    and ok: "snd (send_try L T message ms msgId now p t) = None"
  shows "effects (send L T message ms msgId now p t) =
           effects T @ [SetTimeout t ms, PendingSet msgId, ClearTimeout t,
                        PendingDelete (Some (JStr msgId)), Resolve p no_relays] \<and>
         pendingRequests (send L T message ms msgId now p t) = (pendingRequests T)(msgId := None) \<and>
         (pendingRequests T msgId = None \<longrightarrow>
            pendingRequests (send L T message ms msgId now p t) = pendingRequests T) \<and>
         timers (send L T message ms msgId now p t) = (timers T)(t := None) \<and>
         (promises T p = None \<longrightarrow>
            promises (send L T message ms msgId now p t) p = Some no_relays)"
  using send_no_relays [OF assms] rolled_back_effects [of T ms msgId p t]
    rolled_back_pending [of T ms msgId p t] rolled_back_timers [of T ms msgId p t]
    rolled_back_promises [of T p ms msgId t]
  by auto

theorem send_without_relays_witness:
  "\<not> list_ex (\<lambda>c. c) (clients offline) \<and>
   snd (send_try relay_node offline hello 30000 ''msg-2'' 9000 1 1) = None \<and>
   pendingRequests offline ''msg-2'' = None \<and> promises offline 1 = None \<and>
   effects (send relay_node offline hello 30000 ''msg-2'' 9000 1 1) =
     [SetTimeout 1 30000, PendingSet ''msg-2'', ClearTimeout 1,
      PendingDelete (Some (JStr ''msg-2'')), Resolve 1 no_relays] \<and>
   pendingRequests (send relay_node offline hello 30000 ''msg-2'' 9000 1 1) = pendingRequests offline \<and>
   promises (send relay_node offline hello 30000 ''msg-2'' 9000 1 1) 1 = Some no_relays"
proof -
  have f: "pendingRequests offline ''msg-2'' = None" "promises offline 1 = None" "effects offline = []"
    by (simp_all add: offline_def waiting_def)
  note th = send_without_relays [OF offline_none offline_send]
  from th f(3) have e: "effects (send relay_node offline hello 30000 ''msg-2'' 9000 1 1) =
     [SetTimeout 1 30000, PendingSet ''msg-2'', ClearTimeout 1,
      PendingDelete (Some (JStr ''msg-2'')), Resolve 1 no_relays]"
    by simp
  from th f(1) have p: "pendingRequests (send relay_node offline hello 30000 ''msg-2'' 9000 1 1) =
      pendingRequests offline"
    by blast
  from th f(2) have q: "promises (send relay_node offline hello 30000 ''msg-2'' 9000 1 1) 1 = Some no_relays"
    by blast
  show ?thesis
    using e p q offline_none offline_send f(1,2) by blast
qed

text \<open>
  The pending request of such a call is registered in the table before it is removed:
  the \<open>set\<close> on \<open>pendingRequests\<close> is among the effects of the call.
\<close>

theorem send_registers_then_removes:
  "\<not> list_ex (\<lambda>c. c) (clients offline) \<and>
   PendingSet ''msg-2'' \<in> set (effects (send relay_node offline hello 30000 ''msg-2'' 9000 1 1))"
  using send_no_relays [OF offline_none offline_send] offline_none
  by (simp add: rolled_back_effects)

subsection \<open>Inbound dispatch\<close>

lemma handler_calls_emit:
  "handler_calls (emit T e) = handler_calls T @ (if is_OnMessage e then [e] else [])"
  by (simp add: handler_calls_def emit_def)

lemma published_emit:
  "published (emit T e) = published T @ (if is_Publish e then [e] else [])"
  by (simp add: published_def emit_def)

lemma catch_event_calls: "handler_calls (catch_event r) = handler_calls (fst r)"
  by (cases r) (simp add: catch_event_def handler_calls_emit split: option.splits)

lemma catch_event_published: "published (catch_event r) = published (fst r)"
  by (cases r) (simp add: catch_event_def published_emit split: option.splits)

lemma handleResponse_calls: "handler_calls (fst (handleResponse L T r)) = handler_calls T"
  by (simp add: handleResponse_def Let_def resolve_promise_def pending_delete_def
        clearTimeout_def emit_def handler_calls_def split: sum.splits option.splits)

lemma handleResponse_published: "published (fst (handleResponse L T r)) = published T"
  by (simp add: handleResponse_def Let_def resolve_promise_def pending_delete_def
        clearTimeout_def emit_def published_def split: sum.splits option.splits)

lemma handleResponse_unmatched:
  "Map_get (pendingRequests T) (js_get_opt (Some r) ''id'') = None \<Longrightarrow>
   catch_event (handleResponse L T r) = T \<or> r = JNull"
  by (cases r) (simp_all add: handleResponse_def catch_event_def)

lemma handleEvent_decrypted:
  assumes "JSON_parse L (ev_content event) = Inr encrypted"
    and "decryptMessage L encrypted (keypair T) = Success plaintext"
    and "JSON_parse L plaintext = Inr jsonRpc"
  shows "handleEvent L T event tid now =
     (case js_get (Some jsonRpc) ''result'' of
        Inl e \<Rightarrow> catch_event (T, Some e)
      | Inr result \<Rightarrow>
          if truthy result \<or> truthy (js_get_opt (Some jsonRpc) ''error'')
          then catch_event (handleResponse L T jsonRpc)
          else if js_get_opt (Some jsonRpc) ''method'' = Some (JStr ''message/send'')
          then catch_event (handleIncomingMessage L T jsonRpc
                              (js_get_opt (Some encrypted) ''senderPubKey'') tid now)
          else T)"
  using assms by (simp add: handleEvent_def)

text \<open>
  Claim C9. A payload that decrypts and carries a truthy \<open>result\<close> or \<open>error\<close> is never
  handed to the application handler, whatever the pending table holds; when no pending
  entry has its id, the transport is left exactly as it was (nothing is resolved,
  published or logged).
\<close>

theorem response_never_reaches_handler:
  assumes p1: "JSON_parse L (ev_content event) = Inr encrypted"
    and d: "decryptMessage L encrypted (keypair T) = Success plaintext"
    and p2: "JSON_parse L plaintext = Inr jsonRpc"
    and resp: "truthy (js_get_opt (Some jsonRpc) ''result'') \<or> truthy (js_get_opt (Some jsonRpc) ''error'')"
  shows "handler_calls (handleEvent L T event tid now) = handler_calls T \<and>
         (Map_get (pendingRequests T) (js_get_opt (Some jsonRpc) ''id'') = None \<longrightarrow>
            handleEvent L T event tid now = T)"
proof -
  have g: "js_get (Some jsonRpc) ''result'' = Inr (js_get_opt (Some jsonRpc) ''result'')"
    using resp js_get_nonnull by blast
  have nn: "jsonRpc \<noteq> JNull" using resp by auto
  have h: "handleEvent L T event tid now = catch_event (handleResponse L T jsonRpc)"
    using handleEvent_decrypted [OF p1 d p2] g resp by simp
  show ?thesis
    using h nn handleResponse_unmatched [of T jsonRpc L]
    by (auto simp: catch_event_calls handleResponse_calls)
qed

theorem response_never_reaches_handler_witness:
  "JSON_parse relay_node (ev_content (wire ''E-PONG'')) = Inr (sealed ''PONG'' bob (publicKey alice)) \<and>
   decryptMessage relay_node (sealed ''PONG'' bob (publicKey alice)) (keypair idle) = Success ''PONG'' \<and>
   JSON_parse relay_node ''PONG'' = Inr pong \<and>
   truthy (js_get_opt (Some pong) ''result'') \<and>
   Map_get (pendingRequests idle) (js_get_opt (Some pong) ''id'') = None \<and>
   handler_calls (handleEvent relay_node idle (wire ''E-PONG'') ''task-3'' 7000) = handler_calls idle \<and>
   handleEvent relay_node idle (wire ''E-PONG'') ''task-3'' 7000 = idle"
proof -
  have p1: "JSON_parse relay_node (ev_content (wire ''E-PONG'')) = Inr (sealed ''PONG'' bob (publicKey alice))"
    by (simp add: wire_content parse_script)
  have d: "decryptMessage relay_node (sealed ''PONG'' bob (publicKey alice)) (keypair idle) = Success ''PONG''"
    by (simp add: failing_keypair e_pong)
  have t: "truthy (js_get_opt (Some pong) ''result'')" by (simp add: pong_def)
  have t': "truthy (js_get_opt (Some pong) ''result'') \<or> truthy (js_get_opt (Some pong) ''error'')"
    using t by simp
  have n: "Map_get (pendingRequests idle) (js_get_opt (Some pong) ''id'') = None"
    by (simp add: pong_def idle_def)
  show ?thesis
    using response_never_reaches_handler [OF p1 d parse_script(3) t', of "''task-3''" 7000] p1 d parse_script(3) t n
    by simp
qed

lemma handleIncomingMessage_no_text:
  assumes "\<not> has_text (js_get_opt (js_get_opt (Some req) ''params'') ''message'')"
  shows "fst (handleIncomingMessage L T req spk tid now) = T"
proof (cases "js_get (Some req) ''params''")
  case (Inl e)
  then show ?thesis by (simp add: handleIncomingMessage_def)
next
  case (Inr params)
  note par = Inr
  let ?message = "js_get_opt params ''message''"
  have nt: "\<not> has_text ?message" using assms js_get_Inr [OF par] by simp
  show ?thesis
  proof (cases "truthy ?message")
    case False
    with par show ?thesis by (simp add: handleIncomingMessage_def Let_def)
  next
    case m: True
    show ?thesis
    proof (cases "js_find (js_get_opt ?message ''parts'') ''text''")
      case (Inl e)
      with par m show ?thesis by (simp add: handleIncomingMessage_def Let_def)
    next
      case tp: (Inr textPart)
      have nt': "\<not> truthy (js_get_opt textPart ''text'')"
        using text_found [OF m tp] nt by blast
      show ?thesis
      proof (cases "js_find (js_get_opt ?message ''parts'') ''data''")
        case (Inl e)
        with par m tp show ?thesis by (simp add: handleIncomingMessage_def Let_def)
      next
        case (Inr dataPart)
        with par m tp nt' show ?thesis by (simp add: handleIncomingMessage_def Let_def)
      qed
    qed
  qed
qed

text \<open>
  Claim C10. When the decrypted payload has no \<open>params.message\<close>, or its message has no
  part of kind \<open>text\<close> with a truthy text, \<open>handleEvent\<close> returns without calling the
  application handler and without publishing anything.
\<close>

theorem request_without_text_is_dropped:
  assumes p1: "JSON_parse L (ev_content event) = Inr encrypted"
    and d: "decryptMessage L encrypted (keypair T) = Success plaintext"
    and p2: "JSON_parse L plaintext = Inr jsonRpc"
    and nt: "\<not> has_text (js_get_opt (js_get_opt (Some jsonRpc) ''params'') ''message'')"
  shows "handler_calls (handleEvent L T event tid now) = handler_calls T \<and>
         published (handleEvent L T event tid now) = published T"
proof (cases "js_get (Some jsonRpc) ''result''")
  case (Inl e)
  then show ?thesis
    using handleEvent_decrypted [OF p1 d p2]
    by (simp add: catch_event_calls catch_event_published)
next
  case (Inr result)
  have "fst (handleIncomingMessage L T jsonRpc (js_get_opt (Some encrypted) ''senderPubKey'') tid now) = T"
    by (rule handleIncomingMessage_no_text [OF nt])
  then show ?thesis
    using handleEvent_decrypted [OF p1 d p2] Inr
    by (simp add: catch_event_calls catch_event_published handleResponse_calls
          handleResponse_published)
qed

theorem request_without_text_is_dropped_witness:
  "JSON_parse relay_node (ev_content (wire ''E-SILENT'')) = Inr (sealed ''SILENT'' alice (publicKey bob)) \<and>
   decryptMessage relay_node (sealed ''SILENT'' alice (publicKey bob)) (keypair serving) = Success ''SILENT'' \<and>
   JSON_parse relay_node ''SILENT'' = Inr silent \<and>
   \<not> has_text (js_get_opt (js_get_opt (Some silent) ''params'') ''message'') \<and>
   handler_calls (handleEvent relay_node serving (wire ''E-SILENT'') ''task-4'' 8000) = [] \<and>
   published (handleEvent relay_node serving (wire ''E-SILENT'') ''task-4'' 8000) = []"
proof -
  have p1: "JSON_parse relay_node (ev_content (wire ''E-SILENT'')) = Inr (sealed ''SILENT'' alice (publicKey bob))"
    by (simp add: wire_content parse_script)
  have d: "decryptMessage relay_node (sealed ''SILENT'' alice (publicKey bob)) (keypair serving) = Success ''SILENT''"
    by (simp add: failing_keypair e_silent)
  have nt: "\<not> has_text (js_get_opt (js_get_opt (Some silent) ''params'') ''message'')"
    by (simp add: has_text_def silent_def)
  have e: "handler_calls serving = []" "published serving = []"
    by (simp_all add: handler_calls_def published_def serving_def)
  show ?thesis
    using request_without_text_is_dropped [OF p1 d parse_script(4) nt, of "''task-4''" 8000] p1 d parse_script(4) nt e
    by simp
qed

subsection \<open>Serving a request\<close>

lemma sender_name_of_string:
  "sender_name_of (js_get_opt (js_get_opt (Some req) ''params'') ''sender'') (Some (JStr spk)) =
     Inr (sender_name (req_sender req spk))"
  by (simp add: sender_name_of_def req_sender_def Let_def)

lemma call_handler_effects:
  "effects (fst (call_handler T im si)) =
     effects T @ OnMessage im si #
       (case onMessage T im si of Inl e \<Rightarrow> [LogError (''Handler error: '' @ e)] | Inr r \<Rightarrow> [])"
  by (simp add: call_handler_def Let_def emit_def split: sum.splits)

lemma call_handler_config:
  "keypair (fst (call_handler T im si)) = keypair T"
  "clients (fst (call_handler T im si)) = clients T"
  by (simp_all add: call_handler_def Let_def emit_def split: sum.splits)

lemma call_handler_throws:
  "onMessage T im si = Inl e \<Longrightarrow> snd (call_handler T im si) = (''Message received'', None)"
  by (simp add: call_handler_def Let_def)

lemma call_handler_returns:
  "onMessage T im si = Inr r \<Longrightarrow>
   call_handler T im si = (T\<lparr>effects := effects T @ [OnMessage im si]\<rparr>, resp_text r, resp_data r)"
  by (simp add: call_handler_def Let_def emit_def)

lemma publish_response_ok:
  assumes enc: "encryptMessage L (JSON_stringify L (response_json req tid rtext rdata)) (keypair T)
                (hexdecode L spk) = Inr m"
    and ev: "createNostrEvent L now 4 (JSON_stringify L (EncryptedMessage_object m))
               [[JStr ''p'', JStr spk], [JStr ''t'', JStr spk]] (privateKey (keypair T)) = Inr event"
  shows "publish_response L T req (Some (JStr spk)) tid now rtext rdata = (publish_all T event, None)"
  using assms by (simp add: publish_response_def Let_def element_def)

lemma publish_all_effects:
  "effects (publish_all T event) = effects T @ map (\<lambda>i. Publish i event) (connected_clients T)"
  by (simp add: publish_all_def connected_clients_def)

lemma handleIncomingMessage_request:
  assumes msg: "truthy (req_message req)"
    and tp: "js_find (js_get_opt (req_message req) ''parts'') ''text'' = Inr textPart"
    and dp: "js_find (js_get_opt (req_message req) ''parts'') ''data'' = Inr dataPart"
    and tx: "truthy (js_get_opt textPart ''text'')"
    and pr: "publish_response L (fst (call_handler T (incoming_of req textPart dataPart) (req_sender req spk)))
               req (Some (JStr spk)) tid now
               (fst (snd (call_handler T (incoming_of req textPart dataPart) (req_sender req spk))))
               (snd (snd (call_handler T (incoming_of req textPart dataPart) (req_sender req spk))))
             = (T3, None)"
  shows "handleIncomingMessage L T req (Some (JStr spk)) tid now =
           (case js_substring (js_get_opt textPart ''text'') 50 of
              Inl x \<Rightarrow> (T3, Some x)
            | Inr shown \<Rightarrow>
                (emit T3 (LogInfo (''Received message from '' @
                                   js_String L (sender_name (req_sender req spk)) @
                                   '': '' @ [CHR 0x22] @ shown @ ''...'' @ [CHR 0x22])), None))"
proof -
  have par: "js_get (Some req) ''params'' = Inr (js_get_opt (Some req) ''params'')"
    using msg by (cases req) (simp_all add: req_message_def)
  have si: "\<lparr>sender_name = sender_name (req_sender req spk)\<rparr> = req_sender req spk"
    by simp
  show ?thesis
    using par msg tp dp tx pr
    by (simp add: handleIncomingMessage_def Let_def req_message_def [symmetric]
          sender_name_of_string incoming_of_def [symmetric] si emit_def split: sum.splits)
qed

lemma handleEvent_request:
  assumes p1: "JSON_parse L (ev_content event) = Inr encrypted"
    and d: "decryptMessage L encrypted (keypair T) = Success plaintext"
    and p2: "JSON_parse L plaintext = Inr req"
    and spk: "js_get_opt (Some encrypted) ''senderPubKey'' = Some (JStr spk)"
    and nr: "\<not> truthy (js_get_opt (Some req) ''result'')" "\<not> truthy (js_get_opt (Some req) ''error'')"
    and meth: "js_get_opt (Some req) ''method'' = Some (JStr ''message/send'')"
  shows "handleEvent L T event tid now =
           catch_event (handleIncomingMessage L T req (Some (JStr spk)) tid now)"
proof -
  have "req \<noteq> JNull" using meth by auto
  then have g: "js_get (Some req) ''result'' = Inr (js_get_opt (Some req) ''result'')"
    by (cases req) simp_all
  show ?thesis
    using handleEvent_decrypted [OF p1 d p2] g nr meth spk by simp
qed

lemma response_resolves_sender:
  assumes p1: "JSON_parse L (ev_content ev) = Inr encrypted"
    and d: "decryptMessage L encrypted (keypair A) = Success plaintext"
    and p2: "JSON_parse L plaintext = Inr (response_json req tid rtext None)"
    and k: "js_get_opt (Some req) ''id'' = Some (JStr k)"
    and pend: "pendingRequests A k = Some pending"
  shows "effects (handleEvent L A ev tid' now') =
           effects A @ [ClearTimeout (timeout pending), PendingDelete (Some (JStr k)),
                        Resolve (resolve pending)
                          \<lparr>success = True, taskId = Some (JStr tid), response = Some (JStr rtext),
                           error = None\<rparr>]"
proof -
  let ?r = "response_json req tid rtext None"
  have res: "truthy (js_get_opt (Some ?r) ''result'')"
    by (simp add: response_json_def Let_def object_def)
  have g: "js_get (Some ?r) ''result'' = Inr (js_get_opt (Some ?r) ''result'')"
    using res js_get_nonnull by blast
  have idr: "js_get (Some ?r) ''id'' = Inr (Some (JStr k))"
    using js_get_nonnull [OF res, of "''id''"] response_json_id [of req tid rtext None] k by simp
  have h: "handleEvent L A ev tid' now' = catch_event (handleResponse L A ?r)"
    using handleEvent_decrypted [OF p1 d p2] g res by simp
  have hr: "handleResponse L A ?r =
      (resolve_promise (pending_delete (clearTimeout A (timeout pending)) (Some (JStr k))) (resolve pending)
         \<lparr>success = True, taskId = Some (JStr tid), response = Some (JStr rtext), error = None\<rparr>, None)"
    using idr pend response_json_result [OF k, of L tid rtext]
    by (simp add: handleResponse_def Let_def)
  show ?thesis
    unfolding h hr
    by (simp add: catch_event_def resolve_promise_def pending_delete_def clearTimeout_def emit_def)
qed

text \<open>
  Claim C8. When the handler throws on a well-formed request, the error is logged, the
  response with the default text \<open>Message received\<close> and the id of the request is
  encrypted for the sender, wrapped in an event and published on every connected client.
  Delivered to the sender, whose pending table holds the id, that event resolves the
  sender's \<open>send\<close> with success and the default text.
\<close>

theorem handler_error_fallback:
  assumes rt: "runtime_ok L" and sk: "schnorr_ok L" and vk: "valid_keypair L (keypair T)"
    and p1: "JSON_parse L (ev_content event) = Inr encrypted"
    and d: "decryptMessage L encrypted (keypair T) = Success plaintext"
    and p2: "JSON_parse L plaintext = Inr req"
    and spk: "js_get_opt (Some encrypted) ''senderPubKey'' = Some (JStr spk)"
    and nr: "\<not> truthy (js_get_opt (Some req) ''result'')" "\<not> truthy (js_get_opt (Some req) ''error'')"
    and meth: "js_get_opt (Some req) ''method'' = Some (JStr ''message/send'')"
    and msg: "truthy (req_message req)"
    and tp: "js_find (js_get_opt (req_message req) ''parts'') ''text'' = Inr textPart"
    and dp: "js_find (js_get_opt (req_message req) ''parts'') ''data'' = Inr dataPart"
    and tx: "truthy (js_get_opt textPart ''text'')"
    and throws: "onMessage T (incoming_of req textPart dataPart) (req_sender req spk) = Inl e"
    and utf: "toUtf8 L (utf8encode L (JSON_stringify L (response_json req tid ''Message received'' None)))
                = JSON_stringify L (response_json req tid ''Message received'' None)"
  shows "\<exists>m ev.
     encryptMessage L (JSON_stringify L (response_json req tid ''Message received'' None))
       (keypair T) (hexdecode L spk) = Inr m \<and>
     createNostrEvent L now 4 (JSON_stringify L (EncryptedMessage_object m))
       [[JStr ''p'', JStr spk], [JStr ''t'', JStr spk]] (privateKey (keypair T)) = Inr ev \<and>
     effects (handleEvent L T event tid now) =
       effects T @
       [OnMessage (incoming_of req textPart dataPart) (req_sender req spk),
        LogError (''Handler error: '' @ e)] @
       map (\<lambda>i. Publish i ev) (connected_clients T) @
       (case js_substring (js_get_opt textPart ''text'') 50 of
          Inl x \<Rightarrow> [LogError (''Error processing event: '' @ x)]
        | Inr shown \<Rightarrow>
            [LogInfo (''Received message from '' @ js_String L (sender_name (req_sender req spk)) @
                      '': '' @ [CHR 0x22] @ shown @ ''...'' @ [CHR 0x22])]) \<and>
     (JSON_parse L (JSON_stringify L (EncryptedMessage_object m)) = Inr (EncryptedMessage_object m) \<and>
      JSON_parse L (JSON_stringify L (response_json req tid ''Message received'' None)) =
        Inr (response_json req tid ''Message received'' None) \<and>
      publicKey (keypair A) = hexdecode L spk \<and>
      js_get_opt (Some req) ''id'' = Some (JStr k) \<and>
      pendingRequests A k = Some pending \<longrightarrow>
      effects (handleEvent L A ev tid' now') =
        effects A @
        [ClearTimeout (timeout pending), PendingDelete (Some (JStr k)),
         Resolve (resolve pending)
           \<lparr>success = True, taskId = Some (JStr tid), response = Some (JStr ''Message received''),
            error = None\<rparr>])"
proof -
  let ?resp = "response_json req tid ''Message received'' None"
  let ?im = "incoming_of req textPart dataPart"
  let ?si = "req_sender req spk"
  from encrypt_then_decrypt [where L = L and A = "keypair T" and P = "JSON_stringify L ?resp"
      and R = "hexdecode L spk", OF rt vk utf]
  obtain m where enc: "encryptMessage L (JSON_stringify L ?resp) (keypair T) (hexdecode L spk) = Inr m"
    and dec: "\<forall>B. publicKey B = hexdecode L spk \<longrightarrow>
                decryptMessage L (EncryptedMessage_object m) B = Success (JSON_stringify L ?resp)"
    by blast
  from createNostrEvent_succeeds [OF sk]
  obtain ev where ev: "createNostrEvent L now 4 (JSON_stringify L (EncryptedMessage_object m))
       [[JStr ''p'', JStr spk], [JStr ''t'', JStr spk]] (privateKey (keypair T)) = Inr ev"
    and evc: "ev_content ev = JSON_stringify L (EncryptedMessage_object m)"
    by blast
  let ?T2 = "fst (call_handler T ?im ?si)"
  have resp: "snd (call_handler T ?im ?si) = (''Message received'', None)"
    by (rule call_handler_throws [OF throws])
  have pr: "publish_response L ?T2 req (Some (JStr spk)) tid now
              (fst (snd (call_handler T ?im ?si))) (snd (snd (call_handler T ?im ?si)))
            = (publish_all ?T2 ev, None)"
    using enc ev by (simp add: resp publish_response_ok call_handler_config)
  have e3: "effects (publish_all ?T2 ev) =
              effects T @ [OnMessage ?im ?si, LogError (''Handler error: '' @ e)] @
              map (\<lambda>i. Publish i ev) (connected_clients T)"
    using throws
    by (simp add: publish_all_effects call_handler_effects connected_clients_def call_handler_config)
  have him: "handleIncomingMessage L T req (Some (JStr spk)) tid now =
           (case js_substring (js_get_opt textPart ''text'') 50 of
              Inl x \<Rightarrow> (publish_all ?T2 ev, Some x)
            | Inr shown \<Rightarrow>
                (emit (publish_all ?T2 ev)
                   (LogInfo (''Received message from '' @ js_String L (sender_name ?si) @
                             '': '' @ [CHR 0x22] @ shown @ ''...'' @ [CHR 0x22])), None))"
    by (rule handleIncomingMessage_request [OF msg tp dp tx pr])
  have local: "effects (handleEvent L T event tid now) =
       effects T @
       [OnMessage ?im ?si, LogError (''Handler error: '' @ e)] @
       map (\<lambda>i. Publish i ev) (connected_clients T) @
       (case js_substring (js_get_opt textPart ''text'') 50 of
          Inl x \<Rightarrow> [LogError (''Error processing event: '' @ x)]
        | Inr shown \<Rightarrow>
            [LogInfo (''Received message from '' @ js_String L (sender_name ?si) @
                      '': '' @ [CHR 0x22] @ shown @ ''...'' @ [CHR 0x22])])"
    unfolding handleEvent_request [OF p1 d p2 spk nr meth] him
    by (simp add: catch_event_def emit_def e3 split: sum.splits)
  have remote: "effects (handleEvent L A ev tid' now') =
        effects A @
        [ClearTimeout (timeout pending), PendingDelete (Some (JStr k)),
         Resolve (resolve pending)
           \<lparr>success = True, taskId = Some (JStr tid), response = Some (JStr ''Message received''),
            error = None\<rparr>]"
    if j1: "JSON_parse L (JSON_stringify L (EncryptedMessage_object m)) = Inr (EncryptedMessage_object m)"
      and j2: "JSON_parse L (JSON_stringify L ?resp) = Inr ?resp"
      and pk: "publicKey (keypair A) = hexdecode L spk"
      and k: "js_get_opt (Some req) ''id'' = Some (JStr k)"
      and pend: "pendingRequests A k = Some pending"
  proof -
    have c: "JSON_parse L (ev_content ev) = Inr (EncryptedMessage_object m)"
      using j1 evc by simp
    have dd: "decryptMessage L (EncryptedMessage_object m) (keypair A) = Success (JSON_stringify L ?resp)"
      using dec pk by simp
    show ?thesis by (rule response_resolves_sender [OF c dd j2 k pend])
  qed
  show ?thesis
    using enc ev local remote by blast
qed

theorem handler_error_fallback_witness:
  "onMessage failing (incoming_of ping ping_text None) (req_sender ping (chars_of (publicKey alice)))
     = Inl ''boom'' \<and>
   (\<exists>ev. effects (handleEvent relay_node failing (wire ''E-PING'') ''task-1'' 5000) =
           [OnMessage (incoming_of ping ping_text None) \<lparr>sender_name = Some (JStr ''alice'')\<rparr>,
            LogError ''Handler error: boom'', Publish 0 ev, Publish 2 ev,
            LogInfo (''Received message from alice: '' @ [CHR 0x22] @ ''ping...'' @ [CHR 0x22])] \<and>
         effects (handleEvent relay_node waiting ev ''task-2'' 6000) =
           [ClearTimeout 0, PendingDelete (Some (JStr ''msg-1'')),
            Resolve 0 \<lparr>success = True, taskId = Some (JStr ''task-1''),
                       response = Some (JStr ''Message received''), error = None\<rparr>])"
proof -
  let ?spk = "chars_of (publicKey alice)"
  have vk: "valid_keypair relay_node (keypair failing)"
    by (simp add: failing_keypair bob_valid_relay)
  have p1: "JSON_parse relay_node (ev_content (wire ''E-PING'')) = Inr (sealed ''PING'' alice (publicKey bob))"
    by (simp add: wire_content parse_script)
  have d: "decryptMessage relay_node (sealed ''PING'' alice (publicKey bob)) (keypair failing) = Success ''PING''"
    by (simp add: failing_keypair e_ping)
  have nr: "\<not> truthy (js_get_opt (Some ping) ''result'')" "\<not> truthy (js_get_opt (Some ping) ''error'')"
    by (simp_all add: ping_fields)
  have msg: "truthy (req_message ping)" by (simp add: ping_parts)
  have tx: "truthy (js_get_opt ping_text ''text'')" by (simp add: ping_text_def)
  have utf: "toUtf8 relay_node (utf8encode relay_node
               (JSON_stringify relay_node (response_json ping ''task-1'' ''Message received'' None)))
             = JSON_stringify relay_node (response_json ping ''task-1'' ''Message received'' None)"
    by (rule relay_utf8)
  from handler_error_fallback [OF relay_node_ok relay_node_schnorr vk p1 d parse_script(2) e_ping(2)
      nr ping_fields(3) msg ping_find tx failing_throws utf,
      of 5000 waiting "''msg-1''" "\<lparr>resolve = 0, timeout = 0\<rparr>" "''task-2''" 6000]
  obtain m ev where
    enc: "encryptMessage relay_node (JSON_stringify relay_node (response_json ping ''task-1'' ''Message received'' None))
            (keypair failing) (hexdecode relay_node ?spk) = Inr m"
    and loc: "effects (handleEvent relay_node failing (wire ''E-PING'') ''task-1'' 5000) =
       effects failing @
       [OnMessage (incoming_of ping ping_text None) (req_sender ping ?spk),
        LogError (''Handler error: '' @ ''boom'')] @
       map (\<lambda>i. Publish i ev) (connected_clients failing) @
       (case js_substring (js_get_opt ping_text ''text'') 50 of
          Inl x \<Rightarrow> [LogError (''Error processing event: '' @ x)]
        | Inr shown \<Rightarrow>
            [LogInfo (''Received message from '' @ js_String relay_node (sender_name (req_sender ping ?spk)) @
                      '': '' @ [CHR 0x22] @ shown @ ''...'' @ [CHR 0x22])])"
    and rem: "JSON_parse relay_node (JSON_stringify relay_node (EncryptedMessage_object m)) = Inr (EncryptedMessage_object m) \<and>
      JSON_parse relay_node (JSON_stringify relay_node (response_json ping ''task-1'' ''Message received'' None)) =
        Inr (response_json ping ''task-1'' ''Message received'' None) \<and>
      publicKey (keypair waiting) = hexdecode relay_node ?spk \<and>
      js_get_opt (Some ping) ''id'' = Some (JStr ''msg-1'') \<and>
      pendingRequests waiting ''msg-1'' = Some \<lparr>resolve = 0, timeout = 0\<rparr> \<longrightarrow>
      effects (handleEvent relay_node waiting ev ''task-2'' 6000) =
        effects waiting @
        [ClearTimeout (timeout \<lparr>resolve = 0, timeout = 0\<rparr>), PendingDelete (Some (JStr ''msg-1'')),
         Resolve (resolve \<lparr>resolve = 0, timeout = 0\<rparr>)
           \<lparr>success = True, taskId = Some (JStr ''task-1''), response = Some (JStr ''Message received''),
            error = None\<rparr>]"
    by blast
  from sealed_envelope [OF bob_valid, of script "''ACK''" "publicKey alice"]
  obtain m' where m': "encryptMessage relay_node ''ACK'' bob (publicKey alice) = Inr m'"
    and s': "sealed ''ACK'' bob (publicKey alice) = EncryptedMessage_object m'"
    unfolding relay_node_def by blast
  have "m = m'"
    using enc m' by (simp add: ack_unfold stringify_ack failing_keypair relay_hex)
  then have em: "EncryptedMessage_object m = sealed ''ACK'' bob (publicKey alice)"
    using s' by simp
  have j1: "JSON_parse relay_node (JSON_stringify relay_node (EncryptedMessage_object m)) = Inr (EncryptedMessage_object m)"
    by (simp add: em stringify_sealed_ack parse_script)
  have j2: "JSON_parse relay_node (JSON_stringify relay_node (response_json ping ''task-1'' ''Message received'' None)) =
        Inr (response_json ping ''task-1'' ''Message received'' None)"
    by (simp add: ack_unfold stringify_ack parse_script)
  have pk: "publicKey (keypair waiting) = hexdecode relay_node ?spk"
    by (simp add: failing_keypair relay_hex)
  have r: "effects (handleEvent relay_node waiting ev ''task-2'' 6000) =
           [ClearTimeout 0, PendingDelete (Some (JStr ''msg-1'')),
            Resolve 0 \<lparr>success = True, taskId = Some (JStr ''task-1''),
                       response = Some (JStr ''Message received''), error = None\<rparr>]"
    using rem j1 j2 pk ping_fields(4) waiting_pending by (simp add: waiting_def)
  have l: "effects (handleEvent relay_node failing (wire ''E-PING'') ''task-1'' 5000) =
           [OnMessage (incoming_of ping ping_text None) \<lparr>sender_name = Some (JStr ''alice'')\<rparr>,
            LogError ''Handler error: boom'', Publish 0 ev, Publish 2 ev,
            LogInfo (''Received message from alice: '' @ [CHR 0x22] @ ''ping...'' @ [CHR 0x22])]"
    unfolding loc
    by (simp add: failing_connected ping_sender ping_text_def failing_effects
          relay_String plain_String_def)
  show ?thesis using l r failing_throws by blast
qed

lemma handleEvent_request_served:
  assumes rt: "runtime_ok L" and sk: "schnorr_ok L" and vk: "valid_keypair L (keypair T)"
    and p1: "JSON_parse L (ev_content event) = Inr encrypted"
    and d: "decryptMessage L encrypted (keypair T) = Success plaintext"
    and p2: "JSON_parse L plaintext = Inr req"
    and spk: "js_get_opt (Some encrypted) ''senderPubKey'' = Some (JStr spk)"
    and nr: "\<not> truthy (js_get_opt (Some req) ''result'')" "\<not> truthy (js_get_opt (Some req) ''error'')"
    and meth: "js_get_opt (Some req) ''method'' = Some (JStr ''message/send'')"
    and msg: "truthy (req_message req)"
    and tp: "js_find (js_get_opt (req_message req) ''parts'') ''text'' = Inr textPart"
    and dp: "js_find (js_get_opt (req_message req) ''parts'') ''data'' = Inr dataPart"
    and tx: "truthy (js_get_opt textPart ''text'')"
    and h: "onMessage T (incoming_of req textPart dataPart) (req_sender req spk) = Inr r"
    and utf: "toUtf8 L (utf8encode L (JSON_stringify L (response_json req tid (resp_text r) (resp_data r))))
                = JSON_stringify L (response_json req tid (resp_text r) (resp_data r))"
    and sub: "js_substring (js_get_opt textPart ''text'') 50 = Inr shown"
  shows "\<exists>ev. handleEvent L T event tid now =
           T\<lparr>effects := effects T @
                OnMessage (incoming_of req textPart dataPart) (req_sender req spk) #
                map (\<lambda>i. Publish i ev) (connected_clients T) @
                [LogInfo (''Received message from '' @ js_String L (sender_name (req_sender req spk)) @
                          '': '' @ [CHR 0x22] @ shown @ ''...'' @ [CHR 0x22])]\<rparr>"
proof -
  let ?resp = "response_json req tid (resp_text r) (resp_data r)"
  let ?im = "incoming_of req textPart dataPart"
  let ?si = "req_sender req spk"
  let ?T2 = "T\<lparr>effects := effects T @ [OnMessage ?im ?si]\<rparr>"
  from encrypt_then_decrypt [where L = L and A = "keypair T" and P = "JSON_stringify L ?resp"
      and R = "hexdecode L spk", OF rt vk utf]
  obtain m where enc: "encryptMessage L (JSON_stringify L ?resp) (keypair T) (hexdecode L spk) = Inr m"
    by blast
  from createNostrEvent_succeeds [OF sk]
  obtain ev where ev: "createNostrEvent L now 4 (JSON_stringify L (EncryptedMessage_object m))
       [[JStr ''p'', JStr spk], [JStr ''t'', JStr spk]] (privateKey (keypair T)) = Inr ev"
    by blast
  have ch: "call_handler T ?im ?si = (?T2, resp_text r, resp_data r)"
    by (rule call_handler_returns [OF h])
  have pr: "publish_response L (fst (call_handler T ?im ?si)) req (Some (JStr spk)) tid now
              (fst (snd (call_handler T ?im ?si))) (snd (snd (call_handler T ?im ?si)))
            = (publish_all ?T2 ev, None)"
    unfolding ch using enc ev by (simp add: publish_response_ok)
  have him: "handleIncomingMessage L T req (Some (JStr spk)) tid now =
           (emit (publish_all ?T2 ev)
                   (LogInfo (''Received message from '' @ js_String L (sender_name ?si) @
                             '': '' @ [CHR 0x22] @ shown @ ''...'' @ [CHR 0x22])), None)"
    using handleIncomingMessage_request [OF msg tp dp tx pr] sub by simp
  have "handleEvent L T event tid now =
           T\<lparr>effects := effects T @ OnMessage ?im ?si #
                map (\<lambda>i. Publish i ev) (connected_clients T) @
                [LogInfo (''Received message from '' @ js_String L (sender_name ?si) @
                          '': '' @ [CHR 0x22] @ shown @ ''...'' @ [CHR 0x22])]\<rparr>"
    unfolding handleEvent_request [OF p1 d p2 spk nr meth] him
    by (simp add: catch_event_def emit_def publish_all_def connected_clients_def)
  then show ?thesis by blast
qed

lemma serving_delivery:
  "\<exists>ev. handleEvent relay_node (serving\<lparr>effects := es\<rparr>) (wire ''E-PING'') tid now =
     serving\<lparr>effects := es @
       OnMessage (incoming_of ping ping_text None) \<lparr>sender_name = Some (JStr ''alice'')\<rparr> #
       [Publish 0 ev, Publish 2 ev,
        LogInfo (''Received message from alice: '' @ [CHR 0x22] @ ''ping...'' @ [CHR 0x22])]\<rparr>"
proof -
  let ?T = "serving\<lparr>effects := es\<rparr>"
  let ?spk = "chars_of (publicKey alice)"
  have vk: "valid_keypair relay_node (keypair ?T)"
    by (simp add: serving_keypair bob_valid_relay)
  have p1: "JSON_parse relay_node (ev_content (wire ''E-PING'')) = Inr (sealed ''PING'' alice (publicKey bob))"
    by (simp add: wire_content parse_script)
  have d: "decryptMessage relay_node (sealed ''PING'' alice (publicKey bob)) (keypair ?T) = Success ''PING''"
    by (simp add: serving_keypair e_ping)
  have nr: "\<not> truthy (js_get_opt (Some ping) ''result'')" "\<not> truthy (js_get_opt (Some ping) ''error'')"
    by (simp_all add: ping_fields)
  have msg: "truthy (req_message ping)" by (simp add: ping_parts)
  have tx: "truthy (js_get_opt ping_text ''text'')" by (simp add: ping_text_def)
  from handleEvent_request_served [OF relay_node_ok relay_node_schnorr vk p1 d parse_script(2) e_ping(2)
      nr ping_fields(3) msg ping_find tx serving_answers relay_utf8 ping_shown, of tid now]
  obtain ev where "handleEvent relay_node ?T (wire ''E-PING'') tid now =
           ?T\<lparr>effects := effects ?T @
                OnMessage (incoming_of ping ping_text None) (req_sender ping ?spk) #
                map (\<lambda>i. Publish i ev) (connected_clients ?T) @
                [LogInfo (''Received message from '' @ js_String relay_node (sender_name (req_sender ping ?spk)) @
                          '': '' @ [CHR 0x22] @ ''ping'' @ ''...'' @ [CHR 0x22])]\<rparr>"
    by blast
  then have "handleEvent relay_node ?T (wire ''E-PING'') tid now =
     serving\<lparr>effects := es @
       OnMessage (incoming_of ping ping_text None) \<lparr>sender_name = Some (JStr ''alice'')\<rparr> #
       [Publish 0 ev, Publish 2 ev,
        LogInfo (''Received message from alice: '' @ [CHR 0x22] @ ''ping...'' @ [CHR 0x22])]\<rparr>"
    by (simp add: serving_connected ping_sender relay_String plain_String_def)
  then show ?thesis by blast
qed

text \<open>
  Claim C4 fails on the code: the same request event delivered twice to a transport with
  two connected clients calls the application handler twice and publishes four events,
  two per delivery.
\<close>

theorem duplicate_request_handled_twice:
  "handler_calls
     (handleEvent relay_node
        (handleEvent relay_node serving (wire ''E-PING'') ''task-1'' 5000)
        (wire ''E-PING'') ''task-2'' 6000) =
     [OnMessage (incoming_of ping ping_text None) \<lparr>sender_name = Some (JStr ''alice'')\<rparr>,
      OnMessage (incoming_of ping ping_text None) \<lparr>sender_name = Some (JStr ''alice'')\<rparr>] \<and>
   length (published
     (handleEvent relay_node
        (handleEvent relay_node serving (wire ''E-PING'') ''task-1'' 5000)
        (wire ''E-PING'') ''task-2'' 6000)) = 4"
proof -
  from serving_delivery [of "[]" "''task-1''" 5000, unfolded serving_nil] obtain ev1 where
    1: "handleEvent relay_node serving (wire ''E-PING'') ''task-1'' 5000 =
     serving\<lparr>effects := [] @
       OnMessage (incoming_of ping ping_text None) \<lparr>sender_name = Some (JStr ''alice'')\<rparr> #
       [Publish 0 ev1, Publish 2 ev1,
        LogInfo (''Received message from alice: '' @ [CHR 0x22] @ ''ping...'' @ [CHR 0x22])]\<rparr>"
    by blast
  from serving_delivery obtain ev2 where
    2: "handleEvent relay_node (handleEvent relay_node serving (wire ''E-PING'') ''task-1'' 5000)
          (wire ''E-PING'') ''task-2'' 6000 =
     serving\<lparr>effects := ([] @
       OnMessage (incoming_of ping ping_text None) \<lparr>sender_name = Some (JStr ''alice'')\<rparr> #
       [Publish 0 ev1, Publish 2 ev1,
        LogInfo (''Received message from alice: '' @ [CHR 0x22] @ ''ping...'' @ [CHR 0x22])]) @
       OnMessage (incoming_of ping ping_text None) \<lparr>sender_name = Some (JStr ''alice'')\<rparr> #
       [Publish 0 ev2, Publish 2 ev2,
        LogInfo (''Received message from alice: '' @ [CHR 0x22] @ ''ping...'' @ [CHR 0x22])]\<rparr>"
    unfolding 1 by blast
  show ?thesis unfolding 2 by (simp add: handler_calls_def published_def)
qed

end
